theory Spec2Isabelle
  imports Complex_Main "HOL-Library.AList"
begin

text \<open>
  A shallow embedding of the feature calculators of \<open>gaitalytics/features.py\<close>: the
  event-time extractor, the per-cycle framework with its two utilities, and the
  time-series, phase, temporal and spatial calculators.  Every function that can raise
  returns a sum, the exception on the left.  The definitions come first, section by
  section in the order of the source; the properties follow.
\<close>

section \<open>Exceptions\<close>

text \<open>
  The exceptions of the feature calculators, as values.  A \<open>ValueError\<close> carries the
  message the source gives it; the other three are raised by the language and the
  libraries underneath (an index past the end of an array, a missing dictionary key, an
  attribute read on \<open>None\<close>).
\<close>

datatype error = ValueError string | IndexError | KeyError | AttributeError

section \<open>Event tables\<close>

text \<open>
  The event table of one cycle is a data frame with the columns context, label and time
  and the attributes \<open>context\<close> and \<open>cycle_id\<close>.  Rows keep the order of the frame.
\<close>

record event_row =
  COLUMN_CONTEXT :: string
  COLUMN_LABEL :: string
  COLUMN_TIME :: real

record event_table =
  attrs_context :: string
  attrs_cycle_id :: int
  table_rows :: "event_row list"

text \<open>
  Modelled from the spec: the label constants \<open>events.FOOT_STRIKE\<close> and \<open>events.FOOT_OFF\<close>
  of the module \<open>gaitalytics.events\<close>, which is not among the sources.  The development
  uses only that they are two different labels.
\<close>

definition FOOT_STRIKE :: string where
  "FOOT_STRIKE = ''Foot Strike''"

definition FOOT_OFF :: string where
  "FOOT_OFF = ''Foot Off''"

subsection \<open>Formatting an integer inside an f-string\<close>

fun str_nat :: "nat \<Rightarrow> string" where
  "str_nat n =
     (if n < 10 then [''0123456789'' ! n]
      else str_nat (n div 10) @ [''0123456789'' ! (n mod 10)])"

declare str_nat.simps [simp del]

definition str_int :: "int \<Rightarrow> string" where
  "str_int i = (if i < 0 then ''-'' @ str_nat (nat (- i)) else str_nat (nat i))"

subsection \<open>Positional access\<close>

text \<open>\<open>column.values[i]\<close> with \<open>i \<ge> 0\<close>: an index past the end raises \<open>IndexError\<close>.\<close>

definition values_at :: "'a list \<Rightarrow> nat \<Rightarrow> error + 'a" where
  "values_at xs i = (if i < length xs then Inr (xs ! i) else Inl IndexError)"

subsection \<open>\<open>_CycleFeaturesCalculation.get_event_times\<close>\<close>

definition missing_events_message :: "event_table \<Rightarrow> string" where
  "missing_events_message tbl =
     ''Missing events in segment '' @ attrs_context tbl @ '' nr. '' @ str_int (attrs_cycle_id tbl)"

definition events_sequence_message :: "event_table \<Rightarrow> string" where
  "events_sequence_message tbl =
     ''Error events sequence '' @ attrs_context tbl @ '' nr. '' @ str_int (attrs_cycle_id tbl)"

text \<open>The two boolean-mask selections on the context column.\<close>

definition ipsi_rows :: "event_table \<Rightarrow> event_row list" where
  "ipsi_rows tbl = filter (\<lambda>r. COLUMN_CONTEXT r = attrs_context tbl) (table_rows tbl)"

definition contra_rows :: "event_table \<Rightarrow> event_row list" where
  "contra_rows tbl = filter (\<lambda>r. COLUMN_CONTEXT r \<noteq> attrs_context tbl) (table_rows tbl)"

text \<open>The boolean-mask selection on the label column, followed by the time column.\<close>

definition label_times :: "string \<Rightarrow> event_row list \<Rightarrow> real list" where
  "label_times l rs = map COLUMN_TIME (filter (\<lambda>r. COLUMN_LABEL r = l) rs)"

text \<open>
  The five positional reads happen in the order of the source: both ipsi foot strikes,
  the ipsi foot off, the contra foot strike, the contra foot off.
\<close>

definition read_event_times ::
  "event_row list \<Rightarrow> event_row list \<Rightarrow> error + (real \<times> real \<times> real \<times> real \<times> real)" where
  "read_event_times ipsi contra =
     (let contra_fs = label_times FOOT_STRIKE contra;
          contra_fo = label_times FOOT_OFF contra;
          ipsi_fs = label_times FOOT_STRIKE ipsi;
          ipsi_fo = label_times FOOT_OFF ipsi
      in case values_at ipsi_fs 0 of Inl e \<Rightarrow> Inl e | Inr ipsi_fs_time_start \<Rightarrow>
         (case values_at ipsi_fs 1 of Inl e \<Rightarrow> Inl e | Inr ipsi_fs_time_end \<Rightarrow>
         (case values_at ipsi_fo 0 of Inl e \<Rightarrow> Inl e | Inr ipsi_fo_time \<Rightarrow>
         (case values_at contra_fs 0 of Inl e \<Rightarrow> Inl e | Inr contra_fs_time \<Rightarrow>
         (case values_at contra_fo 0 of Inl e \<Rightarrow> Inl e | Inr contra_fo_time \<Rightarrow>
            Inr (ipsi_fs_time_start, contra_fo_time, contra_fs_time, ipsi_fo_time,
                 ipsi_fs_time_end))))))"

definition get_event_times ::
  "event_table option \<Rightarrow> error + (real \<times> real \<times> real \<times> real \<times> real)" where
  "get_event_times trial_events =
     (case trial_events of
        None \<Rightarrow> Inl (ValueError ''Trial does not have events.'')
      | Some tbl \<Rightarrow>
          if length (table_rows tbl) < 3 then Inl (ValueError (missing_events_message tbl))
          else if length (ipsi_rows tbl) \<noteq> 3 then Inl (ValueError (events_sequence_message tbl))
          else if length (contra_rows tbl) \<noteq> 2 then Inl (ValueError (events_sequence_message tbl))
          else read_event_times (ipsi_rows tbl) (contra_rows tbl))"

text \<open>
  The specification names two failure kinds.  The source raises \<open>ValueError\<close> for both and
  tells them apart by the message: these predicates read the kind off the message.
\<close>

definition MissingEventsError :: "error \<Rightarrow> bool" where
  "MissingEventsError e =
     (case e of
        ValueError m \<Rightarrow>
          m = ''Trial does not have events.'' \<or> take 26 m = ''Missing events in segment ''
      | _ \<Rightarrow> False)"

definition EventSequenceError :: "error \<Rightarrow> bool" where
  "EventSequenceError e =
     (case e of ValueError m \<Rightarrow> take 22 m = ''Error events sequence '' | _ \<Rightarrow> False)"

text \<open>The cardinality validation of the event table: three ipsi rows and two contra rows.\<close>

definition cardinality_valid :: "event_table \<Rightarrow> bool" where
  "cardinality_valid tbl = (length (ipsi_rows tbl) = 3 \<and> length (contra_rows tbl) = 2)"

subsection \<open>Orderings of the five event times\<close>

text \<open>
  The event times lie between the two ipsi foot strikes, weakly and strictly.
\<close>

definition within_bracket :: "real \<times> real \<times> real \<times> real \<times> real \<Rightarrow> bool" where
  "within_bracket ts =
     (case ts of (t0, t1, t2, t3, t4) \<Rightarrow>
        t0 \<le> t1 \<and> t0 \<le> t2 \<and> t0 \<le> t3 \<and> t1 \<le> t4 \<and> t2 \<le> t4 \<and> t3 \<le> t4 \<and> t0 \<le> t4)"

definition strictly_within_bracket :: "real \<times> real \<times> real \<times> real \<times> real \<Rightarrow> bool" where
  "strictly_within_bracket ts =
     (case ts of (t0, t1, t2, t3, t4) \<Rightarrow>
        t0 < t1 \<and> t0 < t2 \<and> t0 < t3 \<and> t1 < t4 \<and> t2 < t4 \<and> t3 < t4)"

text \<open>
  The label composition of a regular cycle: two ipsi foot strikes and one ipsi foot off,
  one contra foot strike and one contra foot off.
\<close>

definition label_composition_valid :: "event_table \<Rightarrow> bool" where
  "label_composition_valid tbl =
     (length (label_times FOOT_STRIKE (ipsi_rows tbl)) = 2 \<and>
      length (label_times FOOT_OFF (ipsi_rows tbl)) = 1 \<and>
      length (label_times FOOT_STRIKE (contra_rows tbl)) = 1 \<and>
      length (label_times FOOT_OFF (contra_rows tbl)) = 1)"

text \<open>The rows of the table stand in the order of their times.\<close>

definition rows_in_time_order :: "event_table \<Rightarrow> bool" where
  "rows_in_time_order tbl = sorted (map COLUMN_TIME (table_rows tbl))"

definition rows_in_strict_time_order :: "event_table \<Rightarrow> bool" where
  "rows_in_strict_time_order tbl = sorted_wrt (<) (map COLUMN_TIME (table_rows tbl))"

text \<open>The first and the last row of the table are ipsi foot strikes.\<close>

definition is_ipsi_strike :: "event_table \<Rightarrow> event_row \<Rightarrow> bool" where
  "is_ipsi_strike tbl r = (COLUMN_CONTEXT r = attrs_context tbl \<and> COLUMN_LABEL r = FOOT_STRIKE)"

definition bracketed_by_ipsi_strikes :: "event_table \<Rightarrow> bool" where
  "bracketed_by_ipsi_strikes tbl =
     (case table_rows tbl of [] \<Rightarrow> False
      | r # rs \<Rightarrow> is_ipsi_strike tbl r \<and> is_ipsi_strike tbl (last (r # rs)))"

subsection \<open>Example tables\<close>

definition ev :: "string \<Rightarrow> string \<Rightarrow> real \<Rightarrow> event_row" where
  "ev c l t = \<lparr>COLUMN_CONTEXT = c, COLUMN_LABEL = l, COLUMN_TIME = t\<rparr>"

definition right_table :: "event_row list \<Rightarrow> event_table" where
  "right_table rs = \<lparr>attrs_context = ''Right'', attrs_cycle_id = 1, table_rows = rs\<rparr>"

text \<open>A regular cycle of the right side, rows in time order.\<close>

definition regular_table :: event_table where
  "regular_table = right_table
     [ev ''Right'' FOOT_STRIKE 0, ev ''Left'' FOOT_OFF (1/10), ev ''Left'' FOOT_STRIKE (1/2),
      ev ''Right'' FOOT_OFF (3/5), ev ''Right'' FOOT_STRIKE 1]"

text \<open>The same five events with the rows of the two ipsi foot strikes exchanged.\<close>

definition swapped_table :: event_table where
  "swapped_table = right_table
     [ev ''Right'' FOOT_STRIKE 1, ev ''Left'' FOOT_OFF (1/10), ev ''Left'' FOOT_STRIKE (1/2),
      ev ''Right'' FOOT_OFF (3/5), ev ''Right'' FOOT_STRIKE 0]"

text \<open>Two ipsi and two contra rows.\<close>

definition two_two_table :: event_table where
  "two_two_table = right_table
     [ev ''Right'' FOOT_STRIKE 0, ev ''Left'' FOOT_OFF (1/10), ev ''Left'' FOOT_STRIKE (1/2),
      ev ''Right'' FOOT_OFF (3/5)]"

text \<open>Three ipsi foot strikes and no ipsi foot off.\<close>

definition three_strikes_table :: event_table where
  "three_strikes_table = right_table
     [ev ''Right'' FOOT_STRIKE 0, ev ''Left'' FOOT_OFF (1/10), ev ''Left'' FOOT_STRIKE (1/2),
      ev ''Right'' FOOT_STRIKE (3/5), ev ''Right'' FOOT_STRIKE 1]"

text \<open>Two contra foot strikes and no contra foot off.\<close>

definition two_contra_strikes_table :: event_table where
  "two_contra_strikes_table = right_table
     [ev ''Right'' FOOT_STRIKE 0, ev ''Left'' FOOT_STRIKE (1/10), ev ''Left'' FOOT_STRIKE (1/2),
      ev ''Right'' FOOT_OFF (3/5), ev ''Right'' FOOT_STRIKE 1]"

section \<open>Numbers and labelled arrays\<close>

text \<open>
  A 64-bit float is a real number or not-a-number: \<open>None\<close> is NaN, the missing sample
  that the reductions skip and the value of an undefined metric.  Arithmetic on finite
  values is the arithmetic of the reals, so rounding and overflow are left out.
\<close>

type_synonym float64 = "real option"

text \<open>
  Division of numpy floats.  A zero divisor raises nothing: the quotient is an infinity or
  NaN, which \<open>None\<close> stands for.
\<close>

definition np_divide :: "real \<Rightarrow> real \<Rightarrow> float64" where
  "np_divide a b = (if b = 0 then None else Some (a / b))"

text \<open>Subtraction of two float arrays, element by element; NaN propagates.\<close>

definition np_subtract :: "float64 \<Rightarrow> float64 \<Rightarrow> float64" where
  "np_subtract a b =
     (case a of None \<Rightarrow> None | Some x \<Rightarrow> (case b of None \<Rightarrow> None | Some y \<Rightarrow> Some (x - y)))"

text \<open>A one-dimensional labelled array over the axis \<open>feature\<close>.\<close>

record 'a feature_array =
  feature_labels :: "string list"
  fdata :: "'a list"

text \<open>
  A two-dimensional labelled array with the axes \<open>feature\<close> and \<open>channel\<close>.  The array
  keeps its axes in an order of its own, and \<open>to_numpy()\<close> returns the data in that
  order: one row per feature when the axes are \<open>(feature, channel)\<close>, one row per channel
  when they are \<open>(channel, feature)\<close>.
\<close>

datatype dim_order = FeatureChannel | ChannelFeature

record features2d =
  dims2 :: dim_order
  feature2 :: "string list"
  channel2 :: "string list"
  np_data :: "float64 list list"

text \<open>The value the array holds for feature \<open>i\<close> and channel \<open>j\<close>, whatever the order of its axes.\<close>

definition cell_value :: "features2d \<Rightarrow> nat \<Rightarrow> nat \<Rightarrow> float64" where
  "cell_value a i j =
     (case dims2 a of
        FeatureChannel \<Rightarrow> np_data a ! i ! j
      | ChannelFeature \<Rightarrow> np_data a ! j ! i)"

text \<open>
  A two-dimensional labelled array with the axes \<open>channel\<close> and \<open>time\<close>, one row per
  channel, and the attribute \<open>context\<close>.  The time axis increases.
\<close>

record channel_array =
  attrs_context2 :: string
  channel :: "string list"
  time_coords :: "real list"
  samples :: "float64 list list"

text \<open>
  The invariants of the two array types: there is one row per label of the first axis,
  and every row has the length of the second axis.
\<close>

definition features2d_ok :: "features2d \<Rightarrow> bool" where
  "features2d_ok a =
     (case dims2 a of
        FeatureChannel \<Rightarrow>
          length (np_data a) = length (feature2 a) \<and>
          list_all (\<lambda>row. length row = length (channel2 a)) (np_data a)
      | ChannelFeature \<Rightarrow>
          length (np_data a) = length (channel2 a) \<and>
          list_all (\<lambda>row. length row = length (feature2 a)) (np_data a))"

definition channel_array_ok :: "channel_array \<Rightarrow> bool" where
  "channel_array_ok a =
     (length (samples a) = length (channel a) \<and>
      list_all (\<lambda>row. length row = length (time_coords a)) (samples a))"

section \<open>Trials\<close>

text \<open>
  Modelled from the spec: the data categories of \<open>gaitalytics.model\<close>, which is not among
  the sources.  The calculators read the category \<open>ANALYSIS\<close> only.
\<close>

datatype DataCategory = MARKERS | ANALOGS | ANALYSIS

text \<open>
  Modelled from the spec: the class \<open>model.Trial\<close>, which is not among the sources, as far
  as the calculators use it: the optional event table and the dictionary of data by
  category.  \<open>model.TrialCycles\<close> maps a context to the cycles of that
  side, and a cycle identifier to the trial of that cycle, both in insertion order.
\<close>

record trial =
  events :: "event_table option"
  all_data :: "DataCategory \<rightharpoonup> channel_array"

type_synonym trial_cycles = "(string \<times> (int \<times> trial) list) list"

definition get_data :: "trial \<Rightarrow> DataCategory \<Rightarrow> error + channel_array" where
  "get_data t category =
     (case all_data t category of None \<Rightarrow> Inl KeyError | Some d \<Rightarrow> Inr d)"

section \<open>The per-cycle framework\<close>

subsection \<open>\<open>_CycleFeaturesCalculation._create_result_from_dict\<close>\<close>

text \<open>A dictionary is a list of pairs in insertion order; storing under a present key keeps its place.\<close>

definition create_result_from_dict :: "(string \<times> 'a) list \<Rightarrow> 'a feature_array" where
  "create_result_from_dict result_dict =
     \<lparr>feature_labels = map fst result_dict, fdata = map snd result_dict\<rparr>"

subsection \<open>\<open>_CycleFeaturesCalculation._flatten_features\<close>\<close>

text \<open>
  The reshape in C order appends the rows of \<open>to_numpy()\<close>, in the order of the array's
  own axes; the labels come from the two nested loops, always features outside and
  channels inside.  The constructor of the new array refuses data and labels of
  different lengths.
\<close>

definition flatten_labels :: "string list \<Rightarrow> string list \<Rightarrow> string list" where
  "flatten_labels fs cs = concat (map (\<lambda>f. map (\<lambda>c. c @ ''_'' @ f) cs) fs)"

definition flatten_features :: "features2d \<Rightarrow> error + float64 feature_array" where
  "flatten_features features =
     (let rs_data = concat (np_data features);
          new_labels = flatten_labels (feature2 features) (channel2 features)
      in if length rs_data = length new_labels
         then Inr \<lparr>feature_labels = new_labels, fdata = rs_data\<rparr>
         else Inl (ValueError ''conflicting sizes for dimension feature''))"

text \<open>Two distinct feature labels and two distinct channel labels whose flat labels clash.\<close>

definition clash_features :: features2d where
  "clash_features =
     \<lparr>dims2 = FeatureChannel, feature2 = [''c'', ''b_c''], channel2 = [''a_b'', ''a''],
      np_data = [[Some 1, Some 2], [Some 3, Some 4]]\<rparr>"

text \<open>Two of the time-series features of two channels, one row per feature.\<close>

definition small_features :: features2d where
  "small_features =
     \<lparr>dims2 = FeatureChannel, feature2 = [''min'', ''max''], channel2 = [''hip'', ''knee''],
      np_data = [[Some 1, Some 2], [Some 3, Some 4]]\<rparr>"

text \<open>
  The same labels on an array with one row per channel: the hip has minimum 1 and
  maximum 2, the knee minimum 3 and maximum 4.
\<close>

definition transposed_features :: features2d where
  "transposed_features =
     \<lparr>dims2 = ChannelFeature, feature2 = [''min'', ''max''], channel2 = [''hip'', ''knee''],
      np_data = [[Some 1, Some 2], [Some 3, Some 4]]\<rparr>"

subsection \<open>\<open>xr.concat\<close> along a new axis\<close>

text \<open>
  The arrays of the cycles are stacked along a new axis labelled by the index; the stack
  is kept as the list of its slices.  Concatenating no array at all is an error.  On the
  way to the stack xarray aligns the other coordinates of the slices by an outer join,
  filling with NaN; the slices are kept here as they are, so the model says what is
  stacked and in which order, not how slices with different coordinates are padded.
\<close>

record ('i, 'a) stacked =
  new_index :: "'i list"
  slices :: "'a list"

definition xr_concat :: "'a list \<Rightarrow> 'i list \<Rightarrow> error + ('i, 'a) stacked" where
  "xr_concat objs idx =
     (if objs = [] then Inl (ValueError ''must supply at least one object to concatenate'')
      else Inr \<lparr>new_index = idx, slices = objs\<rparr>)"

subsection \<open>\<open>_CycleFeaturesCalculation.calculate\<close>\<close>

text \<open>
  The inner loop over the cycles of one context: the first failing cycle ends the run.
  The per-cycle calculation \<open>calc\<close> is the abstract method \<open>_calculate\<close>.
\<close>

fun cycle_loop ::
  "(trial \<Rightarrow> error + 'a) \<Rightarrow> (int \<times> trial) list \<Rightarrow> 'a list \<Rightarrow> int list
    \<Rightarrow> error + ('a list \<times> int list)" where
  "cycle_loop calc [] context_results cycle_dim = Inr (context_results, cycle_dim)"
| "cycle_loop calc ((cycle_id, cycle) # rest) context_results cycle_dim =
     (case calc cycle of
        Inl e \<Rightarrow> Inl e
      | Inr feature \<Rightarrow> cycle_loop calc rest (context_results @ [feature]) (cycle_dim @ [cycle_id]))"

fun context_loop ::
  "(trial \<Rightarrow> error + 'a) \<Rightarrow> trial_cycles \<Rightarrow> (int, 'a) stacked list \<Rightarrow> string list
    \<Rightarrow> error + ((int, 'a) stacked list \<times> string list)" where
  "context_loop calc [] results context_dim = Inr (results, context_dim)"
| "context_loop calc ((ctx, context_cycles) # rest) results context_dim =
     (case cycle_loop calc context_cycles [] [] of
        Inl e \<Rightarrow> Inl e
      | Inr (context_results, cycle_dim) \<Rightarrow>
          (case xr_concat context_results cycle_dim of
             Inl e \<Rightarrow> Inl e
           | Inr stacked_cycles \<Rightarrow>
               context_loop calc rest (results @ [stacked_cycles]) (context_dim @ [ctx])))"

definition calculate ::
  "(trial \<Rightarrow> error + 'a) \<Rightarrow> trial_cycles \<Rightarrow> error + (string, (int, 'a) stacked) stacked" where
  "calculate calc trial_cycles =
     (case context_loop calc trial_cycles [] [] of
        Inl e \<Rightarrow> Inl e
      | Inr (results, context_dim) \<Rightarrow> xr_concat results context_dim)"

section \<open>\<open>TemporalFeatures\<close>\<close>

subsection \<open>\<open>TemporalFeatures._calculate_supports\<close>\<close>

definition calculate_supports :: "real \<Rightarrow> real \<Rightarrow> real \<Rightarrow> real \<Rightarrow> (string \<times> float64) list" where
  "calculate_supports contra_fo_time contra_fs_time ipsi_fo_time end_time =
     (let double_support = np_divide (contra_fo_time + (ipsi_fo_time - contra_fs_time)) end_time;
          single_support = np_divide (contra_fs_time - contra_fo_time) end_time
      in [(''double_support'', double_support), (''single_support'', single_support)])"

subsection \<open>\<open>TemporalFeatures._calculate\<close>\<close>

definition temporal_result_dict ::
  "real \<times> real \<times> real \<times> real \<times> real \<Rightarrow> (string \<times> float64) list" where
  "temporal_result_dict rel_event_times =
     (case rel_event_times of (t0, t1, t2, t3, t4) \<Rightarrow>
        AList.update ''cadence'' (np_divide 60 (t4 / 2))
       (AList.update ''step_time'' (Some (t4 - t2))
       (AList.update ''stride_time'' (Some t4)
       (AList.update ''opposite_foot_contact'' (np_divide t2 t4)
       (AList.update ''opposite_foot_off'' (np_divide t1 t4)
       (AList.update ''foot_off'' (np_divide t3 t4)
       (calculate_supports t1 t2 t3 t4)))))))"

definition TemporalFeatures_calculate :: "trial \<Rightarrow> error + float64 feature_array" where
  "TemporalFeatures_calculate t =
     (case events t of
        None \<Rightarrow> Inl (ValueError ''Trial does not have events.'')
      | Some trial_events \<Rightarrow>
          (case get_event_times (Some trial_events) of
             Inl e \<Rightarrow> Inl e
           | Inr rel_event_times \<Rightarrow>
               Inr (create_result_from_dict (temporal_result_dict rel_event_times))))"

text \<open>A cycle of the right side with a stride of 1.2 seconds.\<close>

definition stride_table :: event_table where
  "stride_table = right_table
     [ev ''Right'' FOOT_STRIKE 0, ev ''Left'' FOOT_OFF (3/20), ev ''Left'' FOOT_STRIKE (3/5),
      ev ''Right'' FOOT_OFF (3/4), ev ''Right'' FOOT_STRIKE (6/5)]"

definition stride_trial :: trial where
  "stride_trial = \<lparr>events = Some stride_table, all_data = Map.empty\<rparr>"

section \<open>\<open>TimeSeriesFeatures\<close>\<close>

subsection \<open>Reductions that skip missing samples\<close>

primrec finite_samples :: "float64 list \<Rightarrow> real list" where
  "finite_samples [] = []"
| "finite_samples (x # xs) =
     (case x of None \<Rightarrow> finite_samples xs | Some y \<Rightarrow> y # finite_samples xs)"

text \<open>A reduction with \<open>skipna=True\<close>: a row without any sample reduces to NaN.\<close>

definition nan_reduce :: "(real list \<Rightarrow> real) \<Rightarrow> float64 list \<Rightarrow> float64" where
  "nan_reduce f row = (let ys = finite_samples row in if ys = [] then None else Some (f ys))"

definition np_min :: "real list \<Rightarrow> real" where
  "np_min ys = Min (set ys)"

definition np_max :: "real list \<Rightarrow> real" where
  "np_max ys = Max (set ys)"

definition np_mean :: "real list \<Rightarrow> real" where
  "np_mean ys = sum_list ys / real (length ys)"

definition np_median :: "real list \<Rightarrow> real" where
  "np_median ys =
     (let s = sort ys; n = length s
      in if odd n then s ! (n div 2) else (s ! (n div 2 - 1) + s ! (n div 2)) / 2)"

text \<open>The population standard deviation (zero delta degrees of freedom).\<close>

definition np_std :: "real list \<Rightarrow> real" where
  "np_std ys = sqrt (np_mean (map (\<lambda>y. (y - np_mean ys)\<^sup>2) ys))"

text \<open>A reduction over the axis \<open>time\<close> leaves one value per channel.\<close>

definition reduce_time :: "(real list \<Rightarrow> real) \<Rightarrow> channel_array \<Rightarrow> float64 list" where
  "reduce_time f markers = map (nan_reduce f) (samples markers)"

subsection \<open>\<open>TimeSeriesFeatures._calculate_features\<close>\<close>

text \<open>
  The minimum comes first, and a minimum over an empty time axis is refused by numpy.
  The six reductions are then stacked along the new axis \<open>feature\<close>, which
  \<open>xr.concat\<close> puts in front of the axis \<open>channel\<close>.
\<close>

definition TimeSeriesFeatures_calculate_features :: "trial \<Rightarrow> error + features2d" where
  "TimeSeriesFeatures_calculate_features t =
     (case get_data t ANALYSIS of
        Inl e \<Rightarrow> Inl e
      | Inr markers \<Rightarrow>
          if time_coords markers = []
          then Inl (ValueError ''zero-size array to reduction operation fmin which has no identity'')
          else
            let min_feat = reduce_time np_min markers;
                max_feat = reduce_time np_max markers;
                mean_feat = reduce_time np_mean markers;
                median_feat = reduce_time np_median markers;
                std_feat = reduce_time np_std markers;
                amplitude_feat = map2 np_subtract max_feat min_feat
            in Inr \<lparr>dims2 = FeatureChannel,
                    feature2 = [''min'', ''max'', ''mean'', ''median'', ''std'', ''amplitude''],
                    channel2 = channel markers,
                    np_data = [min_feat, max_feat, mean_feat, median_feat, std_feat,
                               amplitude_feat]\<rparr>)"

subsection \<open>\<open>TimeSeriesFeatures._calculate\<close>\<close>

definition TimeSeriesFeatures_calculate :: "trial \<Rightarrow> error + float64 feature_array" where
  "TimeSeriesFeatures_calculate t =
     (case TimeSeriesFeatures_calculate_features t of
        Inl e \<Rightarrow> Inl e
      | Inr features \<Rightarrow> flatten_features features)"

section \<open>\<open>PhaseTimeSeriesFeatures\<close>\<close>

subsection \<open>Rounding to four decimals\<close>

text \<open>
  \<open>round(x, 4)\<close> on a numpy float scales by \<open>10 ^ 4\<close>, rounds to the nearest integer with
  ties to the even one, and scales back.  Here the exact product is rounded; numpy rounds
  the float product, which can fall on the other side of a tie for a time with a five in
  the fifth decimal.
\<close>

definition np_rint :: "real \<Rightarrow> int" where
  "np_rint x =
     (let f = \<lfloor>x\<rfloor>; d = x - of_int f
      in if d < 1 / 2 then f else if 1 / 2 < d then f + 1 else if even f then f else f + 1)"

definition py_round :: "real \<Rightarrow> nat \<Rightarrow> real" where
  "py_round x ndigits = of_int (np_rint (x * 10 ^ ndigits)) / 10 ^ ndigits"

subsection \<open>Selection of a time slice\<close>

text \<open>
  \<open>data.sel(time=slice(lo, hi))\<close> on the increasing time axis keeps the samples whose time
  lies between the two bounds, both included, and the attributes.
\<close>

definition in_slice :: "real \<Rightarrow> real \<Rightarrow> real \<Rightarrow> bool" where
  "in_slice lo hi t = (lo \<le> t \<and> t \<le> hi)"

definition sel_time_slice :: "channel_array \<Rightarrow> real \<Rightarrow> real \<Rightarrow> channel_array" where
  "sel_time_slice d lo hi =
     d\<lparr>time_coords := filter (in_slice lo hi) (time_coords d),
       samples := map (\<lambda>row. map snd (filter (\<lambda>p. in_slice lo hi (fst p)) (zip (time_coords d) row)))
                    (samples d)\<rparr>"

subsection \<open>\<open>PhaseTimeSeriesFeatures._create_phase_trial\<close>\<close>

text \<open>A new trial without events that holds the slice of every data category.\<close>

definition create_phase_trial :: "trial \<Rightarrow> real \<Rightarrow> real \<Rightarrow> trial" where
  "create_phase_trial t lo hi =
     \<lparr>events = None,
      all_data = (\<lambda>data_category. map_option (\<lambda>d. sel_time_slice d lo hi) (all_data t data_category))\<rparr>"

subsection \<open>\<open>assign_coords\<close> and concatenation along \<open>feature\<close>\<close>

text \<open>
  \<open>assign_coords\<close> returns a new array with the new labels and leaves its argument as it
  is; it refuses labels whose number is not the length of the axis.
\<close>

definition assign_coords :: "'a feature_array \<Rightarrow> string list \<Rightarrow> error + 'a feature_array" where
  "assign_coords a new_labels =
     (if length new_labels = length (fdata a) then Inr (a\<lparr>feature_labels := new_labels\<rparr>)
      else Inl (ValueError ''conflicting sizes for dimension feature''))"

definition concat_feature :: "'a feature_array \<Rightarrow> 'a feature_array \<Rightarrow> 'a feature_array" where
  "concat_feature a b =
     \<lparr>feature_labels = feature_labels a @ feature_labels b, fdata = fdata a @ fdata b\<rparr>"

subsection \<open>\<open>PhaseTimeSeriesFeatures._calculate\<close>\<close>

text \<open>
  The source calls \<open>assign_coords\<close> on the stance features and on the swing features and
  drops both results: the arrays that are concatenated are the ones the time-series
  calculation returned.  On a trial without events the first use of the event table,
  \<open>event_table.loc\<close>, is an attribute read on \<open>None\<close>.
\<close>

definition PhaseTimeSeriesFeatures_calculate :: "trial \<Rightarrow> error + float64 feature_array" where
  "PhaseTimeSeriesFeatures_calculate t =
     (let event_table = events t
      in case get_data t ANALYSIS of Inl e \<Rightarrow> Inl e | Inr analysis_data \<Rightarrow>
         (let ctx = attrs_context2 analysis_data
          in case event_table of None \<Rightarrow> Inl AttributeError | Some tbl \<Rightarrow>
         (let event_ipsi = filter (\<lambda>r. COLUMN_CONTEXT r = ctx) (table_rows tbl);
              event_ipsi_fo = filter (\<lambda>r. COLUMN_LABEL r = FOOT_OFF) event_ipsi
          in case values_at (map COLUMN_TIME event_ipsi_fo) 0 of Inl e \<Rightarrow> Inl e | Inr fo \<Rightarrow>
         (let fo_time = py_round fo 4
          in case values_at (time_coords analysis_data) 0 of Inl e \<Rightarrow> Inl e | Inr start_time \<Rightarrow>
         (case values_at (time_coords analysis_data) (length (time_coords analysis_data) - 1) of
            Inl e \<Rightarrow> Inl e | Inr end_time \<Rightarrow>
         (let stand_trial = create_phase_trial t start_time fo_time;
              swing_trial = create_phase_trial t fo_time end_time
          in case TimeSeriesFeatures_calculate stand_trial of Inl e \<Rightarrow> Inl e | Inr stand_features \<Rightarrow>
         (case assign_coords stand_features
                 (map (\<lambda>f. f @ ''_swing'') (feature_labels stand_features)) of
            Inl e \<Rightarrow> Inl e | Inr dropped_stand \<Rightarrow>
         (case TimeSeriesFeatures_calculate swing_trial of Inl e \<Rightarrow> Inl e | Inr swing_features \<Rightarrow>
         (case assign_coords swing_features
                 (map (\<lambda>f. f @ ''_swing'') (feature_labels swing_features)) of
            Inl e \<Rightarrow> Inl e | Inr dropped_swing \<Rightarrow>
            Inr (concat_feature stand_features swing_features))))))))))"

subsection \<open>Example trials\<close>

text \<open>The analysis data of two channels over three samples; the second channel misses one.\<close>

definition two_channel_trial :: trial where
  "two_channel_trial =
     \<lparr>events = None,
      all_data = [ANALYSIS \<mapsto>
        \<lparr>attrs_context2 = ''Right'', channel = [''hip'', ''knee''], time_coords = [0, 1/2, 1],
         samples = [[Some 1, Some 3, Some 2], [Some 5, None, Some 4]]\<rparr>]\<rparr>"

text \<open>
  A cycle of the right side with the events of the regular table (ipsi foot off at 0.6)
  and one channel over three samples.
\<close>

definition phase_trial :: trial where
  "phase_trial =
     \<lparr>events = Some regular_table,
      all_data = [ANALYSIS \<mapsto>
        \<lparr>attrs_context2 = ''Right'', channel = [''hip''], time_coords = [0, 1/2, 1],
         samples = [[Some 1, Some 3, Some 2]]\<rparr>]\<rparr>"

section \<open>\<open>SpatialFeatures\<close>\<close>

subsection \<open>Marker trajectories and the collaborators outside the sources\<close>

text \<open>
  A marker trajectory is a labelled array over the axes \<open>axis\<close> and \<open>time\<close>: one
  position \<open>(x, y, z)\<close> per sample, the time axis increasing.
\<close>

type_synonym vec3 = "real \<times> real \<times> real"

type_synonym trajectory = "(real \<times> vec3) list"

definition z_values :: "trajectory \<Rightarrow> real list" where
  "z_values d = map (\<lambda>p. snd (snd (snd p))) d"

text \<open>
  The modules \<open>gaitalytics.utils.mocap\<close>, \<open>gaitalytics.utils.linalg\<close> and
  \<open>gaitalytics.utils.math\<close> are not among the sources.  The spatial calculations take
  their functions as parameters: the marker accessor and the progression vector, which
  read the trial through the mapping configuration, the three vector operations on
  single positions, the speed norm of a trajectory and the finder of local minima of a
  series, which returns indices.  The accessors and the two functions on whole arrays
  may raise.  The type \<open>'m\<close> is the enumeration of the mapped markers.
\<close>

record 'm collaborators =
  get_marker_data :: "trial \<Rightarrow> 'm \<Rightarrow> error + trajectory"
  get_progression_vector :: "trial \<Rightarrow> error + vec3"
  normalize_vector :: "vec3 \<Rightarrow> vec3"
  project_point_on_vector :: "vec3 \<Rightarrow> vec3 \<Rightarrow> vec3"
  calculate_distance :: "vec3 \<Rightarrow> vec3 \<Rightarrow> real"
  calculate_speed_norm :: "trajectory \<Rightarrow> error + real list"
  find_local_minimas :: "real list \<Rightarrow> error + nat list"

subsection \<open>Selections on the time axis\<close>

text \<open>
  \<open>data.sel(time=t, method="nearest")\<close> on an increasing time axis: the last sample at or
  before \<open>t\<close> when it is strictly nearer than the first sample at or after \<open>t\<close>, that one
  otherwise; an empty axis has no nearest sample.
\<close>

definition sel_nearest :: "trajectory \<Rightarrow> real \<Rightarrow> error + vec3" where
  "sel_nearest d t =
     (let left = filter (\<lambda>p. fst p \<le> t) d;
          right = filter (\<lambda>p. t \<le> fst p) d
      in if d = [] then Inl KeyError
         else if right = [] then Inr (snd (last left))
         else if left = [] then Inr (snd (hd right))
         else if t - fst (last left) < fst (hd right) - t then Inr (snd (last left))
         else Inr (snd (hd right)))"


text \<open>
  What the specification asks of the selection: the position is the one of a sample of
  the trajectory, and no sample is nearer in time to \<open>t\<close>.
\<close>

definition nearest_sample :: "trajectory \<Rightarrow> real \<Rightarrow> vec3 \<Rightarrow> bool" where
  "nearest_sample d t p =
     list_ex (\<lambda>s. snd s = p \<and> list_all (\<lambda>q. \<bar>fst s - t\<bar> \<le> \<bar>fst q - t\<bar>) d) d"

subsection \<open>\<open>SpatialFeatures._calculate_step_length\<close>\<close>

definition calculate_step_length ::
  "'m collaborators \<Rightarrow> trial \<Rightarrow> 'm \<Rightarrow> 'm \<Rightarrow> error + (string \<times> float64) list" where
  "calculate_step_length env t ipsi_marker contra_marker =
     (case get_event_times (events t) of Inl e \<Rightarrow> Inl e | Inr event_times \<Rightarrow>
     (case event_times of (t0, t1, t2, t3, t4) \<Rightarrow>
     (case get_marker_data env t ipsi_marker of Inl e \<Rightarrow> Inl e | Inr ipsi_data \<Rightarrow>
     (case sel_nearest ipsi_data t4 of Inl e \<Rightarrow> Inl e | Inr ipsi_heel \<Rightarrow>
     (case get_marker_data env t contra_marker of Inl e \<Rightarrow> Inl e | Inr contra_data \<Rightarrow>
     (case sel_nearest contra_data t4 of Inl e \<Rightarrow> Inl e | Inr contra_heel \<Rightarrow>
     (case get_progression_vector env t of Inl e \<Rightarrow> Inl e | Inr progression \<Rightarrow>
     (let progress_axis = normalize_vector env progression;
          projected_ipsi = project_point_on_vector env ipsi_heel progress_axis;
          projected_contra = project_point_on_vector env contra_heel progress_axis;
          distance = calculate_distance env projected_ipsi projected_contra
      in Inr [(''step_length'', Some distance)]))))))))"

subsection \<open>\<open>SpatialFeatures._find_mtc_index\<close>\<close>





subsection \<open>\<open>SpatialFeatures._calculate_minimal_toe_clearance\<close>\<close>





subsection \<open>The qualifying minima of the specification\<close>





subsection \<open>Euclidean vector operations\<close>

text \<open>
  Modelled from the spec: the vector operations of \<open>gaitalytics.utils.linalg\<close>, which is not
  among the sources, as the specification names them: the normalisation of a vector, the
  projection of a point on a vector and the Euclidean distance of two points.  The
  normalisation is meant for a vector that is not zero.
\<close>

definition dot :: "vec3 \<Rightarrow> vec3 \<Rightarrow> real" where
  "dot a b = (case a of (ax, ay, az) \<Rightarrow> case b of (bx, by, bz) \<Rightarrow> ax * bx + ay * by + az * bz)"

definition scale :: "real \<Rightarrow> vec3 \<Rightarrow> vec3" where
  "scale k a = (case a of (ax, ay, az) \<Rightarrow> (k * ax, k * ay, k * az))"

definition vsub :: "vec3 \<Rightarrow> vec3 \<Rightarrow> vec3" where
  "vsub a b = (case a of (ax, ay, az) \<Rightarrow> case b of (bx, by, bz) \<Rightarrow> (ax - bx, ay - by, az - bz))"

definition norm3 :: "vec3 \<Rightarrow> real" where
  "norm3 a = sqrt (dot a a)"

definition euclid_normalize :: "vec3 \<Rightarrow> vec3" where
  "euclid_normalize v = scale (1 / norm3 v) v"

definition euclid_project :: "vec3 \<Rightarrow> vec3 \<Rightarrow> vec3" where
  "euclid_project p v = scale (dot p v / dot v v) v"

definition euclid_distance :: "vec3 \<Rightarrow> vec3 \<Rightarrow> real" where
  "euclid_distance a b = norm3 (vsub b a)"

definition euclidean :: "'m collaborators \<Rightarrow> bool" where
  "euclidean env =
     (normalize_vector env = euclid_normalize \<and>
      project_point_on_vector env = euclid_project \<and>
      calculate_distance env = euclid_distance)"

subsection \<open>A synthetic cycle\<close>

text \<open>
  Modelled from the spec: the two array helpers of \<open>gaitalytics.utils.linalg\<close> and
  \<open>gaitalytics.utils.math\<close>, which are not among the sources, for the synthetic cycle.
  The speed norm is the distance between neighbouring samples, with the last value
  repeated so that every sample has one; a window of one sample has no value to repeat,
  and reading the last one is an index past the end.  The local minima are the samples
  strictly below both neighbours.
\<close>

definition example_speed_norm :: "trajectory \<Rightarrow> error + real list" where
  "example_speed_norm d =
     (let speeds = map2 (\<lambda>p q. euclid_distance (snd p) (snd q)) d (tl d)
      in case values_at speeds (length speeds - 1) of
           Inl e \<Rightarrow> Inl e
         | Inr final \<Rightarrow> Inr (speeds @ [final]))"

definition example_local_minimas :: "real list \<Rightarrow> error + nat list" where
  "example_local_minimas zs =
     Inr (filter (\<lambda>i. zs ! i < zs ! (i - 1) \<and> zs ! i < zs ! (i + 1)) [1..<length zs - 1])"

text \<open>
  All markers share one time axis of ten samples.  The final event time 1.2 lies between
  the samples at 1.15 and 1.22 and nearer to the second, where the right forefoot marker
  is at the origin and the left one at \<open>(1, 0, 0)\<close>; the progression vector is
  \<open>(1, 0, 0)\<close>.  The swing window from 0.75 to 1.2 holds the six samples from 0.8 to
  1.15.  There the right second metatarsal has two local minima and the fifth none; the
  right heel is above the lower minimum only, and the left heel is below both.
\<close>

definition synthetic_times :: "real list" where
  "synthetic_times = [0, 7/10, 4/5, 17/20, 9/10, 1, 11/10, 23/20, 61/50, 13/10]"

definition synthetic_meta_2 :: trajectory where
  "synthetic_meta_2 = zip synthetic_times
     [(-1, 0, 0), (-1/2, 0, 0), (0, 0, 3), (0, 0, 1), (0, 0, 2), (0, 0, 0), (0, 0, 1),
      (0, 0, 0), (0, 0, 0), (1/4, 0, 1)]"

definition synthetic_contra_meta_2 :: trajectory where
  "synthetic_contra_meta_2 = zip synthetic_times
     [(1/2, 0, 0), (3/4, 0, 0), (1, 0, 0), (1, 0, 0), (1, 0, 0), (1, 0, 0), (1, 0, 0),
      (1, 0, 0), (1, 0, 0), (3/2, 0, 0)]"

definition synthetic_meta_5 :: trajectory where
  "synthetic_meta_5 = map (\<lambda>t. (t, (0, 1, 1))) synthetic_times"

definition synthetic_heel :: trajectory where
  "synthetic_heel = map (\<lambda>t. (t, (-1, 0, 1/2))) synthetic_times"

definition synthetic_low_heel :: trajectory where
  "synthetic_low_heel = map (\<lambda>t. (t, (-1, 0, -1))) synthetic_times"

definition synthetic_markers :: "string \<Rightarrow> error + trajectory" where
  "synthetic_markers m =
     (if m = ''R_META_2'' then Inr synthetic_meta_2
      else if m = ''L_META_2'' then Inr synthetic_contra_meta_2
      else if m = ''R_META_5'' then Inr synthetic_meta_5
      else if m = ''R_HEEL'' then Inr synthetic_heel
      else if m = ''L_HEEL'' then Inr synthetic_low_heel
      else Inl KeyError)"

definition synthetic_env :: "string collaborators" where
  "synthetic_env =
     \<lparr>get_marker_data = (\<lambda>t m. synthetic_markers m),
      get_progression_vector = (\<lambda>t. Inr (1, 0, 0)),
      normalize_vector = euclid_normalize,
      project_point_on_vector = euclid_project,
      calculate_distance = euclid_distance,
      calculate_speed_norm = example_speed_norm,
      find_local_minimas = example_local_minimas\<rparr>"

definition synthetic_trial :: trial where
  "synthetic_trial = \<lparr>events = Some stride_table, all_data = Map.empty\<rparr>"



section \<open>Properties of the event-time extractor\<close>

lemmas table_defs =
  ev_def right_table_def ipsi_rows_def contra_rows_def label_times_def values_at_def
  FOOT_STRIKE_def FOOT_OFF_def cardinality_valid_def read_event_times_def get_event_times_def

lemma partition_length:
  "length (ipsi_rows tbl) + length (contra_rows tbl) = length (table_rows tbl)"
  unfolding ipsi_rows_def contra_rows_def by (rule sum_length_filter_compl)

lemma read_event_times_not_ValueError: "read_event_times ipsi contra \<noteq> Inl (ValueError m)"
  by (simp add: read_event_times_def values_at_def Let_def split: sum.splits)

lemma MissingEventsError_missing [simp]: "MissingEventsError (ValueError (missing_events_message tbl))"
  by (simp add: MissingEventsError_def missing_events_message_def)

lemma EventSequenceError_sequence [simp]: "EventSequenceError (ValueError (events_sequence_message tbl))"
  by (simp add: EventSequenceError_def events_sequence_message_def)

lemma not_EventSequenceError_missing [simp]:
  "\<not> EventSequenceError (ValueError (missing_events_message tbl))"
  by (simp add: EventSequenceError_def missing_events_message_def)

lemma not_MissingEventsError_sequence [simp]:
  "\<not> MissingEventsError (ValueError (events_sequence_message tbl))"
  by (simp add: MissingEventsError_def events_sequence_message_def)

lemma read_event_times_kinds:
  "read_event_times ipsi contra = Inl e \<Longrightarrow> \<not> MissingEventsError e \<and> \<not> EventSequenceError e"
  by (cases e) (simp_all add: read_event_times_not_ValueError MissingEventsError_def
      EventSequenceError_def)

lemma take_Missing: "take 26 m = ''Missing events in segment '' \<Longrightarrow> take 1 m = ''M''"
  by (drule arg_cong [where f = "take 1"]) simp

lemma take_Error: "take 22 m = ''Error events sequence '' \<Longrightarrow> take 1 m = ''E''"
  by (drule arg_cong [where f = "take 1"]) simp

lemma kinds_disjoint:
  "take 26 m = ''Missing events in segment '' \<Longrightarrow> take 22 m = ''Error events sequence '' \<Longrightarrow> False"
  using take_Missing [of m] take_Error [of m] by simp

text \<open>
  Claim C3.  The extractor fails with a missing-events error exactly when the table is
  absent or has fewer than three rows; it fails with an event-sequence error exactly when
  the table is present with at least three rows and does not have exactly three ipsi rows
  and exactly two contra rows; and no error is of both kinds, so that a caller can tell
  them apart.
\<close>

theorem get_event_times_failure_kinds:
  "((\<exists>e. get_event_times t = Inl e \<and> MissingEventsError e) \<longleftrightarrow>
      (t = None \<or> (\<exists>tbl. t = Some tbl \<and> length (table_rows tbl) < 3)))
   \<and> ((\<exists>e. get_event_times t = Inl e \<and> EventSequenceError e) \<longleftrightarrow>
      (\<exists>tbl. t = Some tbl \<and> 3 \<le> length (table_rows tbl) \<and> \<not> cardinality_valid tbl))
   \<and> (\<forall>e. \<not> (MissingEventsError e \<and> EventSequenceError e))"
proof (intro conjI)
  show "(\<exists>e. get_event_times t = Inl e \<and> MissingEventsError e) \<longleftrightarrow>
      (t = None \<or> (\<exists>tbl. t = Some tbl \<and> length (table_rows tbl) < 3))"
    by (cases t) (auto simp: get_event_times_def MissingEventsError_def[of "ValueError ''Trial does not have events.''"]
        dest: read_event_times_kinds)
  show "(\<exists>e. get_event_times t = Inl e \<and> EventSequenceError e) \<longleftrightarrow>
      (\<exists>tbl. t = Some tbl \<and> 3 \<le> length (table_rows tbl) \<and> \<not> cardinality_valid tbl)"
    by (cases t) (auto simp: get_event_times_def cardinality_valid_def
        EventSequenceError_def[of "ValueError ''Trial does not have events.''"]
        dest: read_event_times_kinds)
  show "\<forall>e. \<not> (MissingEventsError e \<and> EventSequenceError e)"
    by (auto simp: MissingEventsError_def EventSequenceError_def split: error.splits
        dest: kinds_disjoint)
qed

theorem get_event_times_failure_kinds_witness:
  "(\<exists>e. get_event_times None = Inl e \<and> MissingEventsError e)
   \<and> (\<exists>e. get_event_times (Some (right_table [])) = Inl e \<and> MissingEventsError e)
   \<and> (\<exists>e. get_event_times (Some two_two_table) = Inl e \<and> EventSequenceError e)"
  using get_event_times_failure_kinds [of None]
    get_event_times_failure_kinds [of "Some (right_table [])"]
    get_event_times_failure_kinds [of "Some two_two_table"]
  by (simp add: two_two_table_def table_defs)

text \<open>
  Claim C9.  There is a table with three ipsi rows and two contra rows, all three ipsi
  rows foot strikes, and another one whose two contra rows are both foot strikes, on which
  the extractor fails with an out-of-bounds \<open>IndexError\<close>, which is not the event-sequence
  error: the labels inside the two partitions are not counted before the positional reads.
\<close>

theorem get_event_times_label_composition_unchecked:
  "(\<exists>tbl. cardinality_valid tbl \<and> length (label_times FOOT_STRIKE (ipsi_rows tbl)) = 3
          \<and> get_event_times (Some tbl) = Inl IndexError)
   \<and> (\<exists>tbl. cardinality_valid tbl \<and> length (label_times FOOT_STRIKE (contra_rows tbl)) = 2
          \<and> get_event_times (Some tbl) = Inl IndexError)
   \<and> \<not> EventSequenceError IndexError"
proof (intro conjI)
  show "\<exists>tbl. cardinality_valid tbl \<and> length (label_times FOOT_STRIKE (ipsi_rows tbl)) = 3
          \<and> get_event_times (Some tbl) = Inl IndexError"
    by (rule exI [of _ three_strikes_table]) (simp add: three_strikes_table_def table_defs)
  show "\<exists>tbl. cardinality_valid tbl \<and> length (label_times FOOT_STRIKE (contra_rows tbl)) = 2
          \<and> get_event_times (Some tbl) = Inl IndexError"
    by (rule exI [of _ two_contra_strikes_table]) (simp add: two_contra_strikes_table_def table_defs)
  show "\<not> EventSequenceError IndexError"
    by (simp add: EventSequenceError_def)
qed

text \<open>
  Claim C1 as stated fails: exchanging the rows of the two ipsi foot strikes of a regular
  cycle keeps the cardinalities, and the extractor returns the later foot strike as the
  start of the cycle; and a table of three ipsi foot strikes and two contra rows passes
  the cardinality validation and yields no times at all.
\<close>

theorem get_event_times_unsorted_counterexample:
  "cardinality_valid swapped_table
   \<and> get_event_times (Some swapped_table) = Inr (1, 1/10, 1/2, 3/5, 0)
   \<and> \<not> within_bracket (1, 1/10, 1/2, 3/5, 0)
   \<and> cardinality_valid three_strikes_table
   \<and> get_event_times (Some three_strikes_table) = Inl IndexError"
  by (simp add: swapped_table_def three_strikes_table_def table_defs within_bracket_def)

lemma regular_table_times: "get_event_times (Some regular_table) = Inr (0, 1/10, 1/2, 3/5, 1)"
  by (simp add: regular_table_def table_defs)


lemma filter_singleton:
  assumes "length (filter P xs) = Suc 0"
  obtains r where "filter P xs = [r]" "r \<in> set xs" "P r"
proof -
  from assms obtain r where r: "filter P xs = [r]"
    by (cases "filter P xs") auto
  then have "r \<in> set (filter P xs)" by simp
  then have "r \<in> set xs" "P r" by auto
  with r that show thesis by blast
qed

lemma filter_pair:
  assumes "length (filter P xs) = Suc (Suc 0)"
  obtains a b where "filter P xs = [a, b]"
proof -
  from assms obtain a ys where 1: "filter P xs = a # ys" "length ys = Suc 0"
    by (cases "filter P xs") auto
  then obtain b where "ys = [b]" by (cases ys) auto
  with 1 that show thesis by blast
qed

lemma last_filter_last: "xs \<noteq> [] \<Longrightarrow> P (last xs) \<Longrightarrow> last (filter P xs) = last xs"
  by (induction xs rule: rev_induct) auto

lemma sorted_first_last:
  assumes "sorted (map f xs)" "r \<in> set xs"
  shows "f (hd xs) \<le> f r \<and> f r \<le> f (last xs)"
proof -
  from assms(2) obtain ys zs where xs: "xs = ys @ r # zs" by (auto simp: in_set_conv_decomp)
  have "f (hd xs) \<le> f r"
    using assms(1) unfolding xs by (cases ys) (auto simp: sorted_append)
  moreover have "f r \<le> f (last xs)"
    using assms(1) unfolding xs by (cases zs rule: rev_cases) (auto simp: sorted_append)
  ultimately show ?thesis ..
qed

lemma strict_sorted_first_last:
  assumes "sorted_wrt (<) (map f xs)" "r \<in> set xs" "r \<noteq> hd xs" "r \<noteq> last xs"
  shows "f (hd xs) < f r \<and> f r < f (last xs)"
proof -
  from assms(2) obtain ys zs where xs: "xs = ys @ r # zs" by (auto simp: in_set_conv_decomp)
  have "f (hd xs) < f r"
    using assms(1,3) unfolding xs by (cases ys) (auto simp: sorted_wrt_append)
  moreover have "f r < f (last xs)"
    using assms(1,4) unfolding xs by (cases zs rule: rev_cases) (auto simp: sorted_wrt_append)
  ultimately show ?thesis ..
qed

lemma FOOT_labels_differ: "FOOT_OFF \<noteq> FOOT_STRIKE"
  by (simp add: FOOT_OFF_def FOOT_STRIKE_def)

text \<open>
  Claim C1, amended.  For a table that passes the cardinality validation and holds two
  ipsi foot strikes, one ipsi foot off, one contra foot strike and one contra foot off,
  the extractor returns five times: the ipsi foot strikes in row order as start and end,
  and the one time of each other kind.  Nothing is sorted or compared.  When the rows stand
  in time order the start is not after the end; when moreover the first and the last row
  are the ipsi foot strikes, the three other times lie between start and end, and strictly
  so when the row times strictly increase.
\<close>

theorem get_event_times_row_order:
  assumes card: "cardinality_valid tbl" and comp: "label_composition_valid tbl"
  shows "\<exists>t0 t1 t2 t3 t4.
      get_event_times (Some tbl) = Inr (t0, t1, t2, t3, t4) \<and>
      label_times FOOT_STRIKE (ipsi_rows tbl) = [t0, t4] \<and>
      label_times FOOT_OFF (contra_rows tbl) = [t1] \<and>
      label_times FOOT_STRIKE (contra_rows tbl) = [t2] \<and>
      label_times FOOT_OFF (ipsi_rows tbl) = [t3] \<and>
      (rows_in_time_order tbl \<longrightarrow> t0 \<le> t4) \<and>
      (rows_in_time_order tbl \<and> bracketed_by_ipsi_strikes tbl \<longrightarrow>
         within_bracket (t0, t1, t2, t3, t4)) \<and>
      (rows_in_strict_time_order tbl \<and> bracketed_by_ipsi_strikes tbl \<longrightarrow>
         strictly_within_bracket (t0, t1, t2, t3, t4))"
proof -
  let ?rows = "table_rows tbl"
  let ?ctx = "attrs_context tbl"
  let ?S = "\<lambda>r. COLUMN_LABEL r = FOOT_STRIKE"
  let ?O = "\<lambda>r. COLUMN_LABEL r = FOOT_OFF"
  from comp have n: "length (filter ?S (ipsi_rows tbl)) = Suc (Suc 0)"
    "length (filter ?O (ipsi_rows tbl)) = Suc 0"
    "length (filter ?S (contra_rows tbl)) = Suc 0"
    "length (filter ?O (contra_rows tbl)) = Suc 0"
    by (simp_all add: label_composition_valid_def label_times_def)
  from n(1) obtain a b where ab: "filter ?S (ipsi_rows tbl) = [a, b]"
    by (rule filter_pair)
  from n(2) obtain c where c: "filter ?O (ipsi_rows tbl) = [c]" "c \<in> set (ipsi_rows tbl)" "?O c"
    by (rule filter_singleton)
  from n(3) obtain d where d: "filter ?S (contra_rows tbl) = [d]" "d \<in> set (contra_rows tbl)"
    by (rule filter_singleton)
  from n(4) obtain e where e: "filter ?O (contra_rows tbl) = [e]" "e \<in> set (contra_rows tbl)"
    by (rule filter_singleton)
  have len: "length ?rows = 5"
    using card partition_length [of tbl] by (simp add: cardinality_valid_def)
  have res: "get_event_times (Some tbl) =
      Inr (COLUMN_TIME a, COLUMN_TIME e, COLUMN_TIME d, COLUMN_TIME c, COLUMN_TIME b)"
    using card len ab c(1) d(1) e(1)
    by (simp add: get_event_times_def cardinality_valid_def read_event_times_def
        label_times_def values_at_def)
  have cin: "c \<in> set ?rows" "COLUMN_CONTEXT c = ?ctx"
    using c(2) by (auto simp: ipsi_rows_def)
  have din: "d \<in> set ?rows" "COLUMN_CONTEXT d \<noteq> ?ctx"
    using d(2) by (auto simp: contra_rows_def)
  have ein: "e \<in> set ?rows" "COLUMN_CONTEXT e \<noteq> ?ctx"
    using e(2) by (auto simp: contra_rows_def)
  have "is_ipsi_strike tbl = (\<lambda>r. COLUMN_CONTEXT r = ?ctx \<and> ?S r)"
    by (auto simp: is_ipsi_strike_def fun_eq_iff)
  then have strikes: "filter (is_ipsi_strike tbl) ?rows = [a, b]"
    using ab by (simp add: ipsi_rows_def)
  have order: "COLUMN_TIME a \<le> COLUMN_TIME b" if "rows_in_time_order tbl"
  proof -
    have "sorted (map COLUMN_TIME (filter (is_ipsi_strike tbl) ?rows))"
      using that unfolding rows_in_time_order_def by (rule sorted_filter)
    then show ?thesis by (simp add: strikes)
  qed
  have ends: "a = hd ?rows \<and> b = last ?rows" if "bracketed_by_ipsi_strikes tbl"
  proof -
    from that obtain r rs where rows: "?rows = r # rs"
      and hd: "is_ipsi_strike tbl r" and lst: "is_ipsi_strike tbl (last ?rows)"
      by (auto simp: bracketed_by_ipsi_strikes_def split: list.splits)
    have "filter (is_ipsi_strike tbl) ?rows = r # filter (is_ipsi_strike tbl) rs"
      using hd by (simp add: rows)
    with strikes have "a = r" by simp
    then have "a = hd ?rows" by (simp add: rows)
    moreover have "last (filter (is_ipsi_strike tbl) ?rows) = last ?rows"
      using lst rows by (intro last_filter_last) auto
    then have "b = last ?rows" by (simp add: strikes)
    ultimately show ?thesis ..
  qed
  have weak: "within_bracket (COLUMN_TIME a, COLUMN_TIME e, COLUMN_TIME d, COLUMN_TIME c, COLUMN_TIME b)"
    if "rows_in_time_order tbl" "bracketed_by_ipsi_strikes tbl"
    using sorted_first_last [OF that(1) [unfolded rows_in_time_order_def] cin(1)]
      sorted_first_last [OF that(1) [unfolded rows_in_time_order_def] din(1)]
      sorted_first_last [OF that(1) [unfolded rows_in_time_order_def] ein(1)]
      ends [OF that(2)] order [OF that(1)]
    by (simp add: within_bracket_def)
  have strict: "strictly_within_bracket (COLUMN_TIME a, COLUMN_TIME e, COLUMN_TIME d, COLUMN_TIME c, COLUMN_TIME b)"
    if so: "rows_in_strict_time_order tbl" and br: "bracketed_by_ipsi_strikes tbl"
  proof -
    from br have s: "is_ipsi_strike tbl (hd ?rows)" "is_ipsi_strike tbl (last ?rows)"
      by (auto simp: bracketed_by_ipsi_strikes_def split: list.splits)
    have "c \<noteq> hd ?rows" "c \<noteq> last ?rows"
      using s c(3) FOOT_labels_differ by (auto simp: is_ipsi_strike_def)
    moreover have "d \<noteq> hd ?rows" "d \<noteq> last ?rows" "e \<noteq> hd ?rows" "e \<noteq> last ?rows"
      using s din(2) ein(2) by (auto simp: is_ipsi_strike_def)
    ultimately show ?thesis
      using strict_sorted_first_last [OF so [unfolded rows_in_strict_time_order_def] cin(1)]
        strict_sorted_first_last [OF so [unfolded rows_in_strict_time_order_def] din(1)]
        strict_sorted_first_last [OF so [unfolded rows_in_strict_time_order_def] ein(1)]
        ends [OF br]
      by (simp add: strictly_within_bracket_def)
  qed
  show ?thesis
    using res ab c(1) d(1) e(1) order weak strict
    by (simp add: label_times_def)
qed

theorem get_event_times_row_order_witness:
  "get_event_times (Some regular_table) = Inr (0, 1/10, 1/2, 3/5, 1)
   \<and> strictly_within_bracket (0, 1/10, 1/2, 3/5, 1)"
proof -
  have card: "cardinality_valid regular_table"
    and comp: "label_composition_valid regular_table"
    and so: "rows_in_strict_time_order regular_table"
    and br: "bracketed_by_ipsi_strikes regular_table"
    by (simp_all add: regular_table_def table_defs label_composition_valid_def
        rows_in_strict_time_order_def bracketed_by_ipsi_strikes_def is_ipsi_strike_def)
  note v = regular_table_times
  from get_event_times_row_order [OF card comp] obtain t0 t1 t2 t3 t4
    where r: "get_event_times (Some regular_table) = Inr (t0, t1, t2, t3, t4)"
      and s: "rows_in_strict_time_order regular_table \<and> bracketed_by_ipsi_strikes regular_table
        \<longrightarrow> strictly_within_bracket (t0, t1, t2, t3, t4)"
    by blast
  from r v have "(t0, t1, t2, t3, t4) = (0, 1/10, 1/2, 3/5, 1)" by simp
  with s so br v show ?thesis by simp
qed

section \<open>Properties of \<open>TemporalFeatures\<close>\<close>

lemma temporal_result_dict_eq:
  "temporal_result_dict (t0, t1, t2, t3, t4) =
     [(''double_support'', np_divide (t1 + (t3 - t2)) t4),
      (''single_support'', np_divide (t2 - t1) t4),
      (''foot_off'', np_divide t3 t4),
      (''opposite_foot_off'', np_divide t1 t4),
      (''opposite_foot_contact'', np_divide t2 t4),
      (''stride_time'', Some t4),
      (''step_time'', Some (t4 - t2)),
      (''cadence'', np_divide 60 (t4 / 2))]"
  by (simp add: temporal_result_dict_def calculate_supports_def)

lemma stride_table_times:
  "get_event_times (Some stride_table) = Inr (0, 3/20, 3/5, 3/4, 6/5)"
  by (simp add: stride_table_def table_defs)

text \<open>
  Claim C4.  For a cycle whose event table yields the five times \<open>(t0, contra_fo,
  contra_fs, ipsi_fo, t4)\<close>, the temporal calculator returns the eight features in this
  order and with these values; the quotients are quotients of reals when the stride time
  \<open>t4\<close> is not zero; and a stride time of 1.2 gives the cadence 100.
\<close>

theorem TemporalFeatures_formulas:
  assumes "get_event_times (events t) = Inr (t0, contra_fo, contra_fs, ipsi_fo, t4)"
  shows "TemporalFeatures_calculate t = Inr
      \<lparr>feature_labels = [''double_support'', ''single_support'', ''foot_off'', ''opposite_foot_off'',
                  ''opposite_foot_contact'', ''stride_time'', ''step_time'', ''cadence''],
       fdata = [np_divide (contra_fo + (ipsi_fo - contra_fs)) t4,
                np_divide (contra_fs - contra_fo) t4,
                np_divide ipsi_fo t4,
                np_divide contra_fo t4,
                np_divide contra_fs t4,
                Some t4,
                Some (t4 - contra_fs),
                np_divide 60 (t4 / 2)]\<rparr>
    \<and> (t4 \<noteq> 0 \<longrightarrow> TemporalFeatures_calculate t = Inr
      \<lparr>feature_labels = [''double_support'', ''single_support'', ''foot_off'', ''opposite_foot_off'',
                  ''opposite_foot_contact'', ''stride_time'', ''step_time'', ''cadence''],
       fdata = [Some ((contra_fo + (ipsi_fo - contra_fs)) / t4),
                Some ((contra_fs - contra_fo) / t4),
                Some (ipsi_fo / t4),
                Some (contra_fo / t4),
                Some (contra_fs / t4),
                Some t4,
                Some (t4 - contra_fs),
                Some (60 / (t4 / 2))]\<rparr>)
    \<and> (t4 = 12 / 10 \<longrightarrow>
         (\<exists>a. TemporalFeatures_calculate t = Inr a \<and>
              map_of (zip (feature_labels a) (fdata a)) ''cadence'' = Some (Some 100)))"
proof -
  from assms obtain tbl where tbl: "events t = Some tbl"
    by (cases "events t") (auto simp: get_event_times_def)
  have "TemporalFeatures_calculate t =
      Inr (create_result_from_dict (temporal_result_dict (t0, contra_fo, contra_fs, ipsi_fo, t4)))"
    using assms by (simp add: TemporalFeatures_calculate_def tbl)
  then have r: "TemporalFeatures_calculate t = Inr
      \<lparr>feature_labels = [''double_support'', ''single_support'', ''foot_off'',
                  ''opposite_foot_off'', ''opposite_foot_contact'', ''stride_time'',
                  ''step_time'', ''cadence''],
       fdata = [np_divide (contra_fo + (ipsi_fo - contra_fs)) t4,
                np_divide (contra_fs - contra_fo) t4,
                np_divide ipsi_fo t4,
                np_divide contra_fo t4,
                np_divide contra_fs t4,
                Some t4,
                Some (t4 - contra_fs),
                np_divide 60 (t4 / 2)]\<rparr>"
    by (simp add: temporal_result_dict_eq create_result_from_dict_def)
  have cadence: "np_divide 60 (t4 / 2) = Some 100" if "t4 = 12 / 10"
    unfolding that by (simp add: np_divide_def)
  show ?thesis
  proof (intro conjI impI)
    assume "t4 = 12 / 10"
    then show "\<exists>a. TemporalFeatures_calculate t = Inr a \<and>
        map_of (zip (feature_labels a) (fdata a)) ''cadence'' = Some (Some 100)"
      using r cadence by simp
  qed (simp_all add: r np_divide_def)
qed

theorem TemporalFeatures_formulas_witness:
  "TemporalFeatures_calculate stride_trial = Inr
      \<lparr>feature_labels = [''double_support'', ''single_support'', ''foot_off'', ''opposite_foot_off'',
                  ''opposite_foot_contact'', ''stride_time'', ''step_time'', ''cadence''],
       fdata = [Some (1/4), Some (3/8), Some (5/8), Some (1/8), Some (1/2), Some (6/5),
                Some (3/5), Some 100]\<rparr>"
proof -
  have "get_event_times (events stride_trial) = Inr (0, 3/20, 3/5, 3/4, 6/5)"
    by (simp add: stride_trial_def stride_table_times)
  from TemporalFeatures_formulas [OF this] show ?thesis
    by (simp add: np_divide_def)
qed

section \<open>Properties of the per-cycle framework\<close>

subsection \<open>Empty inputs of \<open>calculate\<close>\<close>

lemma context_loop_empty_cycles:
  "\<exists>cs \<in> set trial_cycles. snd cs = [] \<Longrightarrow>
     \<exists>e. context_loop calc trial_cycles results context_dim = Inl e"
proof (induction trial_cycles arbitrary: results context_dim)
  case Nil
  then show ?case by simp
next
  case (Cons c rest)
  obtain ctx context_cycles where c: "c = (ctx, context_cycles)" by (cases c)
  show ?case
  proof (cases "context_cycles = []")
    case True
    then show ?thesis by (simp add: c xr_concat_def)
  next
    case False
    with Cons.prems c have "\<exists>cs \<in> set rest. snd cs = []" by auto
    from Cons.IH [OF this] show ?thesis
      by (auto simp: c split: sum.splits prod.splits)
  qed
qed

text \<open>
  Claim C10.  For every per-cycle calculation, \<open>calculate\<close> fails when the mapping of
  contexts is empty and when some context maps to no cycle at all: it returns no array.
\<close>

theorem calculate_empty_raises:
  assumes "trial_cycles = [] \<or> (\<exists>cs \<in> set trial_cycles. snd cs = [])"
  shows "\<exists>e. calculate calc trial_cycles = Inl e"
proof (cases "trial_cycles = []")
  case True
  then show ?thesis by (simp add: calculate_def xr_concat_def)
next
  case False
  with assms have "\<exists>cs \<in> set trial_cycles. snd cs = []" by simp
  from context_loop_empty_cycles [OF this, of calc "[]" "[]"] show ?thesis
    by (auto simp: calculate_def)
qed

theorem calculate_empty_raises_witness:
  "(\<exists>e. calculate TemporalFeatures_calculate [] = Inl e) \<and>
   (\<exists>e. calculate TemporalFeatures_calculate [(''Right'', [(1, stride_trial)]), (''Left'', [])] = Inl e)"
  using calculate_empty_raises [of "[]" TemporalFeatures_calculate]
    calculate_empty_raises [of "[(''Right'', [(1, stride_trial)]), (''Left'', [])]"
      TemporalFeatures_calculate]
  by simp

subsection \<open>Flattening\<close>

lemma length_concat_rows:
  "list_all (\<lambda>row. length row = n) xss \<Longrightarrow> length (concat xss) = length xss * n"
  by (induction xss) simp_all

lemma nth_concat_rows:
  "list_all (\<lambda>row. length row = n) xss \<Longrightarrow> i < length xss \<Longrightarrow> j < n \<Longrightarrow>
     concat xss ! (i * n + j) = xss ! i ! j"
proof (induction xss arbitrary: i)
  case Nil
  then show ?case by simp
next
  case (Cons row xss)
  show ?case
  proof (cases i)
    case 0
    with Cons.prems show ?thesis by (simp add: nth_append)
  next
    case (Suc k)
    with Cons.prems have "concat xss ! (k * n + j) = xss ! k ! j"
      by (intro Cons.IH) simp_all
    with Cons.prems Suc show ?thesis by (simp add: nth_append)
  qed
qed

lemma length_flatten_labels: "length (flatten_labels fs cs) = length fs * length cs"
  unfolding flatten_labels_def
  by (subst length_concat_rows [where n = "length cs"]) (simp_all add: list_all_iff)

lemma nth_flatten_labels:
  assumes "i < length fs" "j < length cs"
  shows "flatten_labels fs cs ! (i * length cs + j) = cs ! j @ ''_'' @ fs ! i"
proof -
  have "concat (map (\<lambda>f. map (\<lambda>c. c @ ''_'' @ f) cs) fs) ! (i * length cs + j)
      = map (\<lambda>f. map (\<lambda>c. c @ ''_'' @ f) cs) fs ! i ! j"
    using assms by (intro nth_concat_rows) (simp_all add: list_all_iff)
  then show ?thesis using assms by (simp add: flatten_labels_def)
qed

lemma set_flatten_labels:
  "set (flatten_labels fs cs) = {c @ ''_'' @ f | c f. c \<in> set cs \<and> f \<in> set fs}"
  by (auto simp: flatten_labels_def)

lemma flatten_labels_Cons:
  "flatten_labels (f # fs) cs = map (\<lambda>c. c @ ''_'' @ f) cs @ flatten_labels fs cs"
  by (simp add: flatten_labels_def)

lemma label_split:
  assumes "CHR ''_'' \<notin> set f" "CHR ''_'' \<notin> set f'" "c @ ''_'' @ f = c' @ ''_'' @ f'"
  shows "c = c' \<and> f = f'"
proof -
  let ?P = "\<lambda>x. x \<noteq> CHR ''_''"
  from assms(3) have "rev (c @ ''_'' @ f) = rev (c' @ ''_'' @ f')" by simp
  then have "rev f @ CHR ''_'' # rev c = rev f' @ CHR ''_'' # rev c'" by simp
  then have "takeWhile ?P (rev f @ CHR ''_'' # rev c) = takeWhile ?P (rev f' @ CHR ''_'' # rev c')"
    by simp
  moreover have "takeWhile ?P (rev f @ CHR ''_'' # rev c) = rev f"
    using assms(1) by (subst takeWhile_tail) auto
  moreover have "takeWhile ?P (rev f' @ CHR ''_'' # rev c') = rev f'"
    using assms(2) by (subst takeWhile_tail) auto
  ultimately have "f = f'" by simp
  with assms(3) show ?thesis by simp
qed

lemma distinct_flatten_labels:
  assumes "distinct cs" "distinct fs" "\<forall>f \<in> set fs. CHR ''_'' \<notin> set f"
  shows "distinct (flatten_labels fs cs)"
  using assms(2,3)
proof (induction fs)
  case Nil
  then show ?case by (simp add: flatten_labels_def)
next
  case (Cons f fs)
  have "distinct (map (\<lambda>c. c @ ''_'' @ f) cs)"
    using assms(1) by (simp add: distinct_map inj_on_def)
  moreover have "distinct (flatten_labels fs cs)"
    using Cons by simp
  moreover have "set (map (\<lambda>c. c @ ''_'' @ f) cs) \<inter> set (flatten_labels fs cs) = {}"
  proof (rule ccontr)
    assume "set (map (\<lambda>c. c @ ''_'' @ f) cs) \<inter> set (flatten_labels fs cs) \<noteq> {}"
    then obtain c c' f' where "f' \<in> set fs" "c @ ''_'' @ f = c' @ ''_'' @ f'"
      by (auto simp: set_flatten_labels)
    moreover from this Cons.prems have "f = f'"
      using label_split [of f f' c c'] by simp
    ultimately show False using Cons.prems by simp
  qed
  ultimately show ?case by (simp add: flatten_labels_Cons)
qed

lemma length_concat_features:
  assumes "features2d_ok a"
  shows "length (concat (np_data a)) = length (feature2 a) * length (channel2 a)"
proof (cases "dims2 a")
  case FeatureChannel
  with assms show ?thesis
    using length_concat_rows [of "length (channel2 a)" "np_data a"]
    by (simp add: features2d_ok_def)
next
  case ChannelFeature
  with assms show ?thesis
    using length_concat_rows [of "length (feature2 a)" "np_data a"]
    by (simp add: features2d_ok_def mult.commute)
qed

lemma flatten_features_ok:
  assumes "features2d_ok a"
  shows "flatten_features a =
    Inr \<lparr>feature_labels = flatten_labels (feature2 a) (channel2 a), fdata = concat (np_data a)\<rparr>"
  using length_concat_features [OF assms]
  by (simp add: flatten_features_def length_flatten_labels)

lemma flatten_cell_feature_major:
  assumes "features2d_ok a" "dims2 a = FeatureChannel"
    and "i < length (feature2 a)" "j < length (channel2 a)"
  shows "concat (np_data a) ! (i * length (channel2 a) + j) = cell_value a i j"
proof -
  from assms(1,2) have "list_all (\<lambda>row. length row = length (channel2 a)) (np_data a)"
    and "length (np_data a) = length (feature2 a)"
    by (simp_all add: features2d_ok_def)
  with assms(3,4) have "concat (np_data a) ! (i * length (channel2 a) + j) = np_data a ! i ! j"
    by (intro nth_concat_rows) simp_all
  with assms(2) show ?thesis by (simp add: cell_value_def)
qed

lemma flatten_cell_channel_major:
  assumes "features2d_ok a" "dims2 a = ChannelFeature"
    and "i < length (feature2 a)" "j < length (channel2 a)"
  shows "concat (np_data a) ! (j * length (feature2 a) + i) = cell_value a i j"
proof -
  from assms(1,2) have "list_all (\<lambda>row. length row = length (feature2 a)) (np_data a)"
    and "length (np_data a) = length (channel2 a)"
    by (simp_all add: features2d_ok_def)
  with assms(3,4) have "concat (np_data a) ! (j * length (feature2 a) + i) = np_data a ! j ! i"
    by (intro nth_concat_rows) simp_all
  with assms(2) show ?thesis by (simp add: cell_value_def)
qed

text \<open>
  Claim C7 as stated fails twice.  Distinct feature labels and distinct channel labels do
  not make the flat labels distinct when labels contain the separator.  And on an array
  whose axes are \<open>(channel, feature)\<close> the data are flattened channel by channel while
  the labels run feature by feature: the position labelled \<open>knee_min\<close> holds the
  maximum of the hip.
\<close>

theorem flatten_features_duplicate_counterexample:
  "features2d_ok clash_features \<and> distinct (feature2 clash_features)
   \<and> distinct (channel2 clash_features)
   \<and> flatten_features clash_features =
       Inr \<lparr>feature_labels = [''a_b_c'', ''a_c'', ''a_b_b_c'', ''a_b_c''],
            fdata = [Some 1, Some 2, Some 3, Some 4]\<rparr>
   \<and> \<not> distinct [''a_b_c'', ''a_c'', ''a_b_b_c'', ''a_b_c'']
   \<and> features2d_ok transposed_features
   \<and> flatten_features transposed_features =
       Inr \<lparr>feature_labels = [''hip_min'', ''knee_min'', ''hip_max'', ''knee_max''],
            fdata = [Some 1, Some 2, Some 3, Some 4]\<rparr>
   \<and> cell_value transposed_features 0 1 = Some 3
   \<and> cell_value transposed_features 1 0 = Some 2"
  by (simp add: clash_features_def transposed_features_def features2d_ok_def
      flatten_features_def flatten_labels_def cell_value_def)

text \<open>
  Claim C7, amended.  For every feature-and-channel array with \<open>F\<close> feature labels and
  \<open>C\<close> channel labels, flattening returns a one-dimensional array of length \<open>F * C\<close>
  whose labels are \<open>channel_feature\<close>, features outside and channels inside, so that the
  label of feature \<open>i\<close> and channel \<open>j\<close> stands at position \<open>i * C + j\<close> and every
  position below \<open>F * C\<close> is one of these; its data are the rows of the input one after
  the other, in the order of the array's own axes.  When the axes are
  \<open>(feature, channel)\<close> the value of feature \<open>i\<close> and channel \<open>j\<close> stands at position
  \<open>i * C + j\<close>, under its label; when the axes are \<open>(channel, feature)\<close> it stands at
  position \<open>j * F + i\<close>.  The labels are free of duplicates when the feature labels are
  distinct, the channel labels are distinct and no feature label contains an underscore.
\<close>

theorem flatten_features_positions:
  assumes "features2d_ok a"
  shows "\<exists>r. flatten_features a = Inr r
    \<and> length (feature_labels r) = length (feature2 a) * length (channel2 a)
    \<and> length (fdata r) = length (feature2 a) * length (channel2 a)
    \<and> feature_labels r = concat (map (\<lambda>f. map (\<lambda>c. c @ ''_'' @ f) (channel2 a)) (feature2 a))
    \<and> fdata r = concat (np_data a)
    \<and> (\<forall>i j. i < length (feature2 a) \<and> j < length (channel2 a) \<longrightarrow>
          feature_labels r ! (i * length (channel2 a) + j) = channel2 a ! j @ ''_'' @ feature2 a ! i)
    \<and> (dims2 a = FeatureChannel \<longrightarrow>
         (\<forall>i j. i < length (feature2 a) \<and> j < length (channel2 a) \<longrightarrow>
            fdata r ! (i * length (channel2 a) + j) = cell_value a i j))
    \<and> (dims2 a = ChannelFeature \<longrightarrow>
         (\<forall>i j. i < length (feature2 a) \<and> j < length (channel2 a) \<longrightarrow>
            fdata r ! (j * length (feature2 a) + i) = cell_value a i j))
    \<and> (\<forall>k. k < length (feature2 a) * length (channel2 a) \<longrightarrow>
          k div length (channel2 a) < length (feature2 a)
          \<and> k mod length (channel2 a) < length (channel2 a)
          \<and> k = (k div length (channel2 a)) * length (channel2 a) + k mod length (channel2 a))
    \<and> (distinct (feature2 a) \<and> distinct (channel2 a)
         \<and> (\<forall>f \<in> set (feature2 a). CHR ''_'' \<notin> set f) \<longrightarrow> distinct (feature_labels r))"
proof -
  let ?F = "length (feature2 a)" and ?C = "length (channel2 a)"
  let ?r = "\<lparr>feature_labels = flatten_labels (feature2 a) (channel2 a),
             fdata = concat (np_data a)\<rparr>"
  have len: "length (concat (np_data a)) = ?F * ?C"
    by (rule length_concat_features [OF assms])
  have res: "flatten_features a = Inr ?r"
    by (rule flatten_features_ok [OF assms])
  have inv: "k div ?C < ?F \<and> k mod ?C < ?C \<and> k = (k div ?C) * ?C + k mod ?C" if "k < ?F * ?C" for k
  proof -
    from that have "0 < ?C" by (cases "?C = 0") simp_all
    moreover from that have "k div ?C < ?F"
      by (simp add: less_mult_imp_div_less)
    ultimately show ?thesis by simp
  qed
  show ?thesis
  proof (intro exI [of _ ?r] conjI allI impI)
    show "flatten_features a = Inr ?r" by (rule res)
    show "length (feature_labels ?r) = ?F * ?C" by (simp add: length_flatten_labels)
    show "length (fdata ?r) = ?F * ?C" by (simp add: len)
    show "feature_labels ?r = concat (map (\<lambda>f. map (\<lambda>c. c @ ''_'' @ f) (channel2 a)) (feature2 a))"
      by (simp add: flatten_labels_def)
    show "fdata ?r = concat (np_data a)" by simp
  next
    fix i j assume "i < ?F \<and> j < ?C"
    then show "feature_labels ?r ! (i * ?C + j) = channel2 a ! j @ ''_'' @ feature2 a ! i"
      using nth_flatten_labels [of i "feature2 a" j "channel2 a"] by simp
  next
    fix i j assume "dims2 a = FeatureChannel" "i < ?F \<and> j < ?C"
    then show "fdata ?r ! (i * ?C + j) = cell_value a i j"
      using flatten_cell_feature_major [OF assms, of i j] by simp
  next
    fix i j assume "dims2 a = ChannelFeature" "i < ?F \<and> j < ?C"
    then show "fdata ?r ! (j * ?F + i) = cell_value a i j"
      using flatten_cell_channel_major [OF assms, of i j] by simp
  next
    fix k assume "k < ?F * ?C"
    from inv [OF this] show "k div ?C < ?F" and "k mod ?C < ?C"
      and "k = (k div ?C) * ?C + k mod ?C"
      by simp_all
  next
    assume "distinct (feature2 a) \<and> distinct (channel2 a)
      \<and> (\<forall>f \<in> set (feature2 a). CHR ''_'' \<notin> set f)"
    then show "distinct (feature_labels ?r)"
      by (simp add: distinct_flatten_labels)
  qed
qed

theorem flatten_features_positions_witness:
  "flatten_features small_features =
     Inr \<lparr>feature_labels = [''hip_min'', ''knee_min'', ''hip_max'', ''knee_max''],
          fdata = [Some 1, Some 2, Some 3, Some 4]\<rparr>
   \<and> distinct [''hip_min'', ''knee_min'', ''hip_max'', ''knee_max'']
   \<and> cell_value small_features 0 1 = Some 2
   \<and> (\<exists>r. flatten_features transposed_features = Inr r
         \<and> fdata r ! 2 = cell_value transposed_features 0 1
         \<and> cell_value transposed_features 0 1 = Some 3)"
proof -
  have ok: "features2d_ok small_features"
    by (simp add: small_features_def features2d_ok_def)
  have v: "flatten_features small_features =
     Inr \<lparr>feature_labels = [''hip_min'', ''knee_min'', ''hip_max'', ''knee_max''],
          fdata = [Some 1, Some 2, Some 3, Some 4]\<rparr>"
    by (simp add: small_features_def flatten_features_def flatten_labels_def)
  from flatten_features_positions [OF ok] obtain r
    where r: "flatten_features small_features = Inr r"
      and c: "dims2 small_features = FeatureChannel \<longrightarrow>
         (\<forall>i j. i < length (feature2 small_features) \<and> j < length (channel2 small_features) \<longrightarrow>
            fdata r ! (i * length (channel2 small_features) + j) = cell_value small_features i j)"
      and d: "distinct (feature2 small_features) \<and> distinct (channel2 small_features)
         \<and> (\<forall>f \<in> set (feature2 small_features). CHR ''_'' \<notin> set f)
         \<longrightarrow> distinct (feature_labels r)"
    by blast
  have "distinct (feature2 small_features) \<and> distinct (channel2 small_features)
         \<and> (\<forall>f \<in> set (feature2 small_features). CHR ''_'' \<notin> set f)"
    by (simp add: small_features_def)
  with d have "distinct (feature_labels r)" by simp
  moreover from r v have rv: "r = \<lparr>feature_labels = [''hip_min'', ''knee_min'', ''hip_max'', ''knee_max''],
          fdata = [Some 1, Some 2, Some 3, Some 4]\<rparr>"
    by simp
  moreover have "dims2 small_features = FeatureChannel"
    by (simp add: small_features_def)
  with c have cells: "\<And>i j. i < length (feature2 small_features)
      \<and> j < length (channel2 small_features) \<Longrightarrow>
    fdata r ! (i * length (channel2 small_features) + j) = cell_value small_features i j"
    by blast
  have "fdata r ! (0 * length (channel2 small_features) + 1) = cell_value small_features 0 1"
    by (rule cells) (simp add: small_features_def)
  then have "cell_value small_features 0 1 = Some 2"
    by (simp add: rv small_features_def)
  moreover have "\<exists>r. flatten_features transposed_features = Inr r
         \<and> fdata r ! 2 = cell_value transposed_features 0 1
         \<and> cell_value transposed_features 0 1 = Some 3"
  proof -
    have ok': "features2d_ok transposed_features"
      by (simp add: transposed_features_def features2d_ok_def)
    from flatten_features_positions [OF ok'] obtain r'
      where r': "flatten_features transposed_features = Inr r'"
        and c': "dims2 transposed_features = ChannelFeature \<longrightarrow>
         (\<forall>i j. i < length (feature2 transposed_features)
              \<and> j < length (channel2 transposed_features) \<longrightarrow>
            fdata r' ! (j * length (feature2 transposed_features) + i)
              = cell_value transposed_features i j)"
      by blast
    have "dims2 transposed_features = ChannelFeature"
      by (simp add: transposed_features_def)
    with c' have cells': "\<And>i j. i < length (feature2 transposed_features)
        \<and> j < length (channel2 transposed_features) \<Longrightarrow>
      fdata r' ! (j * length (feature2 transposed_features) + i)
        = cell_value transposed_features i j"
      by blast
    have "fdata r' ! (1 * length (feature2 transposed_features) + 0)
        = cell_value transposed_features 0 1"
      by (rule cells') (simp add: transposed_features_def)
    then have "fdata r' ! 2 = cell_value transposed_features 0 1"
      by (simp add: transposed_features_def numeral_2_eq_2)
    moreover have "cell_value transposed_features 0 1 = Some 3"
      by (simp add: transposed_features_def cell_value_def)
    ultimately show ?thesis using r' by blast
  qed
  ultimately show ?thesis using v by simp
qed

section \<open>Properties of the time-series calculators\<close>

lemma length_reduce_time [simp]: "length (reduce_time f markers) = length (samples markers)"
  by (simp add: reduce_time_def)

lemma nth_reduce_time:
  "j < length (samples markers) \<Longrightarrow> reduce_time f markers ! j = nan_reduce f (samples markers ! j)"
  by (simp add: reduce_time_def)

text \<open>The stacked reductions of an analysis array, as the calculation returns them.\<close>

lemma calculate_features_value:
  assumes "get_data t ANALYSIS = Inr markers" "time_coords markers \<noteq> []"
  shows "TimeSeriesFeatures_calculate_features t =
    Inr \<lparr>dims2 = FeatureChannel,
         feature2 = [''min'', ''max'', ''mean'', ''median'', ''std'', ''amplitude''],
         channel2 = channel markers,
         np_data = [reduce_time np_min markers, reduce_time np_max markers,
                    reduce_time np_mean markers, reduce_time np_median markers,
                    reduce_time np_std markers,
                    map2 np_subtract (reduce_time np_max markers) (reduce_time np_min markers)]\<rparr>"
  using assms by (simp add: TimeSeriesFeatures_calculate_features_def Let_def)

lemma calculate_value:
  assumes "get_data t ANALYSIS = Inr markers" "time_coords markers \<noteq> []"
    and "length (samples markers) = length (channel markers)"
  shows "TimeSeriesFeatures_calculate t =
    Inr \<lparr>feature_labels =
           flatten_labels [''min'', ''max'', ''mean'', ''median'', ''std'', ''amplitude'']
             (channel markers),
         fdata = concat
           [reduce_time np_min markers, reduce_time np_max markers,
            reduce_time np_mean markers, reduce_time np_median markers,
            reduce_time np_std markers,
            map2 np_subtract (reduce_time np_max markers) (reduce_time np_min markers)]\<rparr>"
proof -
  let ?a = "\<lparr>dims2 = FeatureChannel,
         feature2 = [''min'', ''max'', ''mean'', ''median'', ''std'', ''amplitude''],
         channel2 = channel markers,
         np_data = [reduce_time np_min markers, reduce_time np_max markers,
                    reduce_time np_mean markers, reduce_time np_median markers,
                    reduce_time np_std markers,
                    map2 np_subtract (reduce_time np_max markers) (reduce_time np_min markers)]\<rparr>"
  have "features2d_ok ?a"
    using assms(3) by (simp add: features2d_ok_def)
  from flatten_features_ok [OF this] show ?thesis
    using calculate_features_value [OF assms(1,2)]
    by (simp add: TimeSeriesFeatures_calculate_def)
qed

text \<open>
  Claim C8.  For every cycle whose analysis array has a non-empty time axis, the
  time-series calculator returns six values per channel, and for every channel the value
  labelled \<open>amplitude\<close> is the difference of the values labelled \<open>max\<close> and \<open>min\<close> of that
  channel; for a channel with a finite sample these are the maximum and the minimum of
  its finite samples and the amplitude is their difference.
\<close>

theorem TimeSeriesFeatures_amplitude:
  assumes "get_data t ANALYSIS = Inr markers"
    and "channel_array_ok markers"
    and "time_coords markers \<noteq> []"
  shows "\<exists>r. TimeSeriesFeatures_calculate t = Inr r
    \<and> length (feature_labels r) = 6 * length (channel markers)
    \<and> length (fdata r) = 6 * length (channel markers)
    \<and> (\<forall>j. j < length (channel markers) \<longrightarrow>
          feature_labels r ! j = channel markers ! j @ ''_min''
        \<and> feature_labels r ! (length (channel markers) + j) = channel markers ! j @ ''_max''
        \<and> feature_labels r ! (5 * length (channel markers) + j)
            = channel markers ! j @ ''_amplitude''
        \<and> fdata r ! (5 * length (channel markers) + j)
            = np_subtract (fdata r ! (length (channel markers) + j)) (fdata r ! j)
        \<and> (finite_samples (samples markers ! j) \<noteq> [] \<longrightarrow>
             fdata r ! j = Some (Min (set (finite_samples (samples markers ! j))))
           \<and> fdata r ! (length (channel markers) + j)
               = Some (Max (set (finite_samples (samples markers ! j))))
           \<and> fdata r ! (5 * length (channel markers) + j)
               = Some (Max (set (finite_samples (samples markers ! j)))
                       - Min (set (finite_samples (samples markers ! j))))))"
proof -
  let ?C = "length (channel markers)"
  let ?fs = "[''min'', ''max'', ''mean'', ''median'', ''std'', ''amplitude'']"
  let ?mn = "reduce_time np_min markers" and ?mx = "reduce_time np_max markers"
  let ?rows = "[?mn, ?mx, reduce_time np_mean markers, reduce_time np_median markers,
                reduce_time np_std markers, map2 np_subtract ?mx ?mn]"
  define D where "D = concat ?rows"
  define L where "L = flatten_labels ?fs (channel markers)"
  let ?r = "\<lparr>feature_labels = L, fdata = D\<rparr>"
  from assms(2) have n: "length (samples markers) = ?C"
    by (simp add: channel_array_ok_def)
  have res: "TimeSeriesFeatures_calculate t = Inr ?r"
    unfolding D_def L_def using calculate_value [OF assms(1,3) n] .
  have rows: "list_all (\<lambda>row. length row = ?C) ?rows"
    by (simp add: n)
  have cell: "D ! (i * ?C + j) = ?rows ! i ! j" if "i < 6" "j < ?C" for i j
    unfolding D_def using that by (intro nth_concat_rows [OF rows]) simp_all
  have lab: "L ! (i * ?C + j) = channel markers ! j @ ''_'' @ ?fs ! i"
    if "i < 6" "j < ?C" for i j
    unfolding L_def using that by (intro nth_flatten_labels) simp_all
  have per_channel:
    "L ! j = channel markers ! j @ ''_min''
     \<and> L ! (?C + j) = channel markers ! j @ ''_max''
     \<and> L ! (5 * ?C + j) = channel markers ! j @ ''_amplitude''
     \<and> D ! (5 * ?C + j) = np_subtract (D ! (?C + j)) (D ! j)
     \<and> (finite_samples (samples markers ! j) \<noteq> [] \<longrightarrow>
          D ! j = Some (Min (set (finite_samples (samples markers ! j))))
        \<and> D ! (?C + j) = Some (Max (set (finite_samples (samples markers ! j))))
        \<and> D ! (5 * ?C + j)
            = Some (Max (set (finite_samples (samples markers ! j)))
                    - Min (set (finite_samples (samples markers ! j)))))"
    if j: "j < ?C" for j
  proof -
    have c0: "D ! j = ?mn ! j"
      using cell [of 0 j] j by simp
    have c1: "D ! (?C + j) = ?mx ! j"
      using cell [of 1 j] j by simp
    have c5: "D ! (5 * ?C + j) = np_subtract (?mx ! j) (?mn ! j)"
      using cell [of 5 j] j n by simp
    have l0: "L ! j = channel markers ! j @ ''_min''"
      using lab [of 0 j] j by simp
    have l1: "L ! (?C + j) = channel markers ! j @ ''_max''"
      using lab [of 1 j] j by simp
    have l5: "L ! (5 * ?C + j) = channel markers ! j @ ''_amplitude''"
      using lab [of 5 j] j by simp
    have mn: "?mn ! j = nan_reduce np_min (samples markers ! j)"
      and mx: "?mx ! j = nan_reduce np_max (samples markers ! j)"
      using j n by (simp_all add: nth_reduce_time)
    show ?thesis
      by (simp add: c0 c1 c5 l0 l1 l5 mn mx nan_reduce_def np_min_def np_max_def np_subtract_def)
  qed
  have len: "length D = 6 * ?C" "length L = 6 * ?C"
    unfolding D_def L_def using length_concat_rows [OF rows]
    by (simp_all add: length_flatten_labels)
  show ?thesis
  proof (intro exI [of _ ?r] conjI allI impI)
    fix j assume "j < ?C"
    from per_channel [OF this]
    show "feature_labels ?r ! j = channel markers ! j @ ''_min''"
      and "feature_labels ?r ! (?C + j) = channel markers ! j @ ''_max''"
      and "feature_labels ?r ! (5 * ?C + j) = channel markers ! j @ ''_amplitude''"
      and "fdata ?r ! (5 * ?C + j) = np_subtract (fdata ?r ! (?C + j)) (fdata ?r ! j)"
      by simp_all
    assume "finite_samples (samples markers ! j) \<noteq> []"
    with per_channel [OF \<open>j < ?C\<close>]
    show "fdata ?r ! j = Some (Min (set (finite_samples (samples markers ! j))))"
      and "fdata ?r ! (?C + j) = Some (Max (set (finite_samples (samples markers ! j))))"
      and "fdata ?r ! (5 * ?C + j)
            = Some (Max (set (finite_samples (samples markers ! j)))
                    - Min (set (finite_samples (samples markers ! j))))"
      by (simp_all add: np_subtract_def)
  qed (simp_all add: res len)
qed

theorem TimeSeriesFeatures_amplitude_witness:
  "\<exists>r. TimeSeriesFeatures_calculate two_channel_trial = Inr r
     \<and> feature_labels r ! 1 = ''knee_min'' \<and> fdata r ! 1 = Some 4
     \<and> feature_labels r ! 3 = ''knee_max'' \<and> fdata r ! 3 = Some 5
     \<and> feature_labels r ! 11 = ''knee_amplitude'' \<and> fdata r ! 11 = Some 1"
proof -
  let ?m = "\<lparr>attrs_context2 = ''Right'', channel = [''hip'', ''knee''], time_coords = [0, 1/2, 1],
         samples = [[Some 1, Some 3, Some 2], [Some 5, None, Some 4]]\<rparr>"
  have 1: "get_data two_channel_trial ANALYSIS = Inr ?m"
    by (simp add: two_channel_trial_def get_data_def)
  have 2: "channel_array_ok ?m"
    by (simp add: channel_array_ok_def)
  have 3: "time_coords ?m \<noteq> []"
    by simp
  from TimeSeriesFeatures_amplitude [OF 1 2 3] obtain r
    where r: "TimeSeriesFeatures_calculate two_channel_trial = Inr r"
      and all: "\<forall>j. j < length (channel ?m) \<longrightarrow>
          feature_labels r ! j = channel ?m ! j @ ''_min''
        \<and> feature_labels r ! (length (channel ?m) + j) = channel ?m ! j @ ''_max''
        \<and> feature_labels r ! (5 * length (channel ?m) + j) = channel ?m ! j @ ''_amplitude''
        \<and> fdata r ! (5 * length (channel ?m) + j)
            = np_subtract (fdata r ! (length (channel ?m) + j)) (fdata r ! j)
        \<and> (finite_samples (samples ?m ! j) \<noteq> [] \<longrightarrow>
             fdata r ! j = Some (Min (set (finite_samples (samples ?m ! j))))
           \<and> fdata r ! (length (channel ?m) + j)
               = Some (Max (set (finite_samples (samples ?m ! j))))
           \<and> fdata r ! (5 * length (channel ?m) + j)
               = Some (Max (set (finite_samples (samples ?m ! j)))
                       - Min (set (finite_samples (samples ?m ! j)))))"
    by blast
  from all [rule_format, of 1] r show ?thesis
    by (intro exI [of _ r]) (simp add: numeral_3_eq_3 np_subtract_def)
qed

section \<open>Properties of \<open>PhaseTimeSeriesFeatures\<close>\<close>

lemma calculate_labels:
  assumes "TimeSeriesFeatures_calculate t = Inr r" "get_data t ANALYSIS = Inr markers"
  shows "feature_labels r =
    flatten_labels [''min'', ''max'', ''mean'', ''median'', ''std'', ''amplitude''] (channel markers)"
  using assms
  by (auto simp: TimeSeriesFeatures_calculate_def TimeSeriesFeatures_calculate_features_def
      flatten_features_def Let_def split: if_splits)

lemma get_data_phase_trial:
  "get_data t ANALYSIS = Inr markers \<Longrightarrow>
     get_data (create_phase_trial t lo hi) ANALYSIS = Inr (sel_time_slice markers lo hi)"
  by (auto simp: get_data_def create_phase_trial_def split: option.splits)

lemma channel_sel_time_slice [simp]: "channel (sel_time_slice d lo hi) = channel d"
  by (simp add: sel_time_slice_def)

text \<open>
  Whatever the cycle, the labels of the result are the flat labels of the time-series
  calculation, once for the stance and once more for the swing, and none is renamed.
\<close>

lemma phase_labels_unsuffixed:
  assumes "PhaseTimeSeriesFeatures_calculate t = Inr r" "get_data t ANALYSIS = Inr markers"
  shows "feature_labels r =
    flatten_labels [''min'', ''max'', ''mean'', ''median'', ''std'', ''amplitude''] (channel markers)
    @ flatten_labels [''min'', ''max'', ''mean'', ''median'', ''std'', ''amplitude''] (channel markers)"
proof -
  from assms obtain lo mid hi stand_features swing_features
    where stand: "TimeSeriesFeatures_calculate (create_phase_trial t lo mid) = Inr stand_features"
      and swing: "TimeSeriesFeatures_calculate (create_phase_trial t mid hi) = Inr swing_features"
      and r: "r = concat_feature stand_features swing_features"
    by (auto simp: PhaseTimeSeriesFeatures_calculate_def Let_def
        split: sum.splits option.splits)
  from calculate_labels [OF stand get_data_phase_trial [OF assms(2)]]
    calculate_labels [OF swing get_data_phase_trial [OF assms(2)]]
  show ?thesis by (simp add: r concat_feature_def)
qed

text \<open>
  Claim C2, evaluated on a cycle with one channel \<open>hip\<close>: the result is the stance
  features followed by the swing features, and every label is the plain label of the
  time-series calculation.  The stance minimum is labelled \<open>hip_min\<close> and so is the swing
  minimum; no label ends in \<open>_swing\<close>.
\<close>

theorem PhaseTimeSeriesFeatures_labels_unsuffixed:
  "PhaseTimeSeriesFeatures_calculate phase_trial =
     Inr \<lparr>feature_labels =
            [''hip_min'', ''hip_max'', ''hip_mean'', ''hip_median'', ''hip_std'', ''hip_amplitude'',
             ''hip_min'', ''hip_max'', ''hip_mean'', ''hip_median'', ''hip_std'', ''hip_amplitude''],
          fdata = [Some 1, Some 3, Some 2, Some 2, Some 1, Some 2,
                   Some 2, Some 2, Some 2, Some 2, Some 0, Some 0]\<rparr>"
  by (simp add: PhaseTimeSeriesFeatures_calculate_def phase_trial_def get_data_def
      regular_table_def ev_def right_table_def values_at_def FOOT_OFF_def FOOT_STRIKE_def
      py_round_def np_rint_def create_phase_trial_def sel_time_slice_def in_slice_def
      TimeSeriesFeatures_calculate_def TimeSeriesFeatures_calculate_features_def
      reduce_time_def nan_reduce_def np_min_def np_max_def np_mean_def np_median_def np_std_def
      np_subtract_def flatten_features_def flatten_labels_def assign_coords_def concat_feature_def
      Let_def)

section \<open>Properties of \<open>SpatialFeatures\<close>\<close>

subsection \<open>The Euclidean vector operations\<close>

lemma dot_self_nonneg: "0 \<le> dot v v"
  by (cases v) (simp add: dot_def)

lemma dot_self_pos:
  assumes "v \<noteq> (0, 0, 0)"
  shows "0 < dot v v"
proof -
  obtain x y z where v: "v = (x, y, z)" by (cases v)
  have "dot v v \<noteq> 0"
  proof
    assume "dot v v = 0"
    then have "(x * x + y * y) + z * z = 0" by (simp add: v dot_def)
    then have "x * x + y * y = 0 \<and> z * z = 0"
      by (simp add: add_nonneg_eq_0_iff)
    then have "x = 0 \<and> y = 0 \<and> z = 0" by simp
    with assms v show False by simp
  qed
  with dot_self_nonneg [of v] show ?thesis by simp
qed

lemma dot_scale_left: "dot (scale k a) b = k * dot a b"
  by (cases a, cases b) (simp add: dot_def scale_def algebra_simps)

lemma dot_scale_right: "dot a (scale k b) = k * dot a b"
  by (cases a, cases b) (simp add: dot_def scale_def algebra_simps)

lemma dot_vsub_left: "dot (vsub b a) u = dot b u - dot a u"
  by (cases a, cases b, cases u) (simp add: dot_def vsub_def algebra_simps)

lemma vsub_scale: "vsub (scale k u) (scale l u) = scale (k - l) u"
  by (cases u) (simp add: vsub_def scale_def algebra_simps)

lemma norm3_scale: "norm3 (scale k a) = \<bar>k\<bar> * norm3 a"
proof -
  have "dot (scale k a) (scale k a) = (k * k) * dot a a"
    by (simp add: dot_scale_left dot_scale_right)
  then show ?thesis
    by (simp add: norm3_def real_sqrt_mult)
qed

lemma norm3_normalize:
  assumes "v \<noteq> (0, 0, 0)"
  shows "dot (euclid_normalize v) (euclid_normalize v) = 1"
proof -
  from dot_self_pos [OF assms] have pos: "0 < dot v v" .
  then have "norm3 v * norm3 v = dot v v"
    by (simp add: norm3_def)
  moreover from pos have "norm3 v \<noteq> 0" by (simp add: norm3_def)
  ultimately show ?thesis
    using pos by (simp add: euclid_normalize_def dot_scale_left dot_scale_right field_simps)
qed

lemma euclid_step_length:
  assumes "v \<noteq> (0, 0, 0)"
  shows "euclid_distance (euclid_project a (euclid_normalize v))
           (euclid_project b (euclid_normalize v)) = \<bar>dot (vsub b a) v\<bar> / norm3 v"
proof -
  let ?u = "euclid_normalize v"
  have unit: "dot ?u ?u = 1" by (rule norm3_normalize [OF assms])
  from dot_self_pos [OF assms] have n: "0 < norm3 v" by (simp add: norm3_def)
  have "euclid_distance (euclid_project a ?u) (euclid_project b ?u)
      = norm3 (scale (dot b ?u - dot a ?u) ?u)"
    by (simp add: euclid_distance_def euclid_project_def unit vsub_scale)
  also have "\<dots> = \<bar>dot b ?u - dot a ?u\<bar>"
    by (simp add: norm3_scale) (simp add: norm3_def unit)
  also have "dot b ?u - dot a ?u = dot (vsub b a) v / norm3 v"
    by (simp add: dot_vsub_left euclid_normalize_def dot_scale_right diff_divide_distrib)
  also have "\<bar>dot (vsub b a) v / norm3 v\<bar> = \<bar>dot (vsub b a) v\<bar> / norm3 v"
    using n by simp
  finally show ?thesis .
qed

lemma euclid_unit_step:
  "euclid_distance (euclid_project (0, 0, 0) (euclid_normalize (1, 0, 0)))
     (euclid_project (1, 0, 0) (euclid_normalize (1, 0, 0))) = 1"
  using euclid_step_length [of "(1, 0, 0)" "(0, 0, 0)" "(1, 0, 0)"]
  by (simp add: vsub_def dot_def norm3_def)

subsection \<open>Nearest-neighbour selection\<close>

text \<open>
  The nearest-neighbour selection returns a sample, and no sample of the trajectory is
  nearer in time.
\<close>

lemma sel_nearest_is_nearest:
  assumes "sorted (map fst d)" and "sel_nearest d t = Inr p"
  shows "\<exists>s. (s, p) \<in> set d \<and> (\<forall>q \<in> set d. \<bar>s - t\<bar> \<le> \<bar>fst q - t\<bar>)"
proof -
  let ?left = "filter (\<lambda>p. fst p \<le> t) d" and ?right = "filter (\<lambda>p. t \<le> fst p) d"
  from assms(2) have nonempty: "d \<noteq> []"
    by (auto simp: sel_nearest_def)
  have sl: "sorted (map fst ?left)" and sr: "sorted (map fst ?right)"
    using assms(1) by (simp_all add: sorted_filter)
  have left_max: "fst q \<le> fst (last ?left)" if "q \<in> set ?left" for q
    using sorted_first_last [OF sl that] by simp
  have right_min: "fst (hd ?right) \<le> fst q" if "q \<in> set ?right" for q
    using sorted_first_last [OF sr that] by simp
  have last_left: "last ?left \<in> set d \<and> fst (last ?left) \<le> t" if "?left \<noteq> []"
    using last_in_set [OF that] by simp
  have hd_right: "hd ?right \<in> set d \<and> t \<le> fst (hd ?right)" if "?right \<noteq> []"
    using hd_in_set [OF that] by simp
  have split: "q \<in> set ?left \<or> q \<in> set ?right" if "q \<in> set d" for q
    using that by auto
  have from_left: "\<forall>q \<in> set d. \<bar>fst (last ?left) - t\<bar> \<le> \<bar>fst q - t\<bar>"
    if ne: "?left \<noteq> []" and near: "?right \<noteq> [] \<Longrightarrow> t - fst (last ?left) < fst (hd ?right) - t"
  proof
    fix q assume q: "q \<in> set d"
    from split [OF q] show "\<bar>fst (last ?left) - t\<bar> \<le> \<bar>fst q - t\<bar>"
    proof
      assume "q \<in> set ?left"
      with left_max [OF this] last_left [OF ne] show ?thesis by simp
    next
      assume r: "q \<in> set ?right"
      then have "?right \<noteq> []" by (auto simp: filter_empty_conv)
      from near [OF this] right_min [OF r] last_left [OF ne] hd_right [OF this] r
      show ?thesis by simp
    qed
  qed
  have from_right: "\<forall>q \<in> set d. \<bar>fst (hd ?right) - t\<bar> \<le> \<bar>fst q - t\<bar>"
    if ne: "?right \<noteq> []" and near: "?left \<noteq> [] \<Longrightarrow> fst (hd ?right) - t \<le> t - fst (last ?left)"
  proof
    fix q assume q: "q \<in> set d"
    from split [OF q] show "\<bar>fst (hd ?right) - t\<bar> \<le> \<bar>fst q - t\<bar>"
    proof
      assume l: "q \<in> set ?left"
      then have "?left \<noteq> []" by (auto simp: filter_empty_conv)
      from near [OF this] left_max [OF l] last_left [OF this] hd_right [OF ne] l
      show ?thesis by simp
    next
      assume "q \<in> set ?right"
      with right_min [OF this] hd_right [OF ne] show ?thesis by simp
    qed
  qed
  have all_left: "?left \<noteq> []" if "?right = []"
  proof -
    from nonempty obtain q where "q \<in> set d" by (cases d) auto
    from split [OF this] that show ?thesis by (auto simp: filter_empty_conv)
  qed
  consider (a) "?right = []" | (b) "?right \<noteq> []" "?left = []"
    | (c) "?right \<noteq> []" "?left \<noteq> []" "t - fst (last ?left) < fst (hd ?right) - t"
    | (d) "?right \<noteq> []" "?left \<noteq> []" "\<not> t - fst (last ?left) < fst (hd ?right) - t"
    by blast
  then show ?thesis
  proof cases
    case a
    with assms(2) nonempty have p: "p = snd (last ?left)"
      by (simp add: sel_nearest_def)
    from from_left [OF all_left [OF a]] a last_left [OF all_left [OF a]]
    show ?thesis by (intro exI [of _ "fst (last ?left)"]) (simp add: p)
  next
    case b
    with assms(2) nonempty have p: "p = snd (hd ?right)"
      by (simp add: sel_nearest_def)
    from from_right [OF b(1)] b hd_right [OF b(1)]
    show ?thesis by (intro exI [of _ "fst (hd ?right)"]) (simp add: p)
  next
    case c
    with assms(2) nonempty have p: "p = snd (last ?left)"
      by (simp add: sel_nearest_def)
    from from_left [OF c(2)] c last_left [OF c(2)]
    show ?thesis by (intro exI [of _ "fst (last ?left)"]) (simp add: p)
  next
    case d
    with assms(2) nonempty have p: "p = snd (hd ?right)"
      by (simp add: sel_nearest_def)
    from from_right [OF d(1)] d hd_right [OF d(1)]
    show ?thesis by (intro exI [of _ "fst (hd ?right)"]) (simp add: p)
  qed
qed

lemma sel_nearest_returns: "d \<noteq> [] \<Longrightarrow> \<exists>p. sel_nearest d t = Inr p"
  by (cases "sel_nearest d t") (auto simp: sel_nearest_def Let_def split: if_splits)

lemma sel_nearest_nearest_sample:
  assumes "sorted (map fst d)" and "sel_nearest d t = Inr p"
  shows "nearest_sample d t p"
proof -
  from sel_nearest_is_nearest [OF assms] obtain s
    where "(s, p) \<in> set d" and "\<forall>q \<in> set d. \<bar>s - t\<bar> \<le> \<bar>fst q - t\<bar>"
    by blast
  then show ?thesis
    unfolding nearest_sample_def list_ex_iff list_all_iff
    by (intro bexI [of _ "(s, p)"]) simp_all
qed

subsection \<open>Step length\<close>

text \<open>
  Claim C5.  For a cycle with a valid event table whose two markers and progression
  vector are available, the step length is the distance between the projections, on the
  normalised progression vector, of the ipsi and the contra marker positions; each
  position is the one of a sample of the marker nearest in time to the final event time.
  With Euclidean vector operations this is the length of the difference of the two
  positions along the progression vector; with the ipsi marker at the origin, the contra
  marker at \<open>(1, 0, 0)\<close> and the progression vector \<open>(1, 0, 0)\<close>, the step length is 1.
\<close>

theorem step_length_projection:
  assumes "get_event_times (events t) = Inr (t0, t1, t2, t3, t4)"
    and "get_marker_data env t ipsi_marker = Inr ipsi_data"
    and "ipsi_data \<noteq> []" and "sorted (map fst ipsi_data)"
    and "get_marker_data env t contra_marker = Inr contra_data"
    and "contra_data \<noteq> []" and "sorted (map fst contra_data)"
    and "get_progression_vector env t = Inr progression"
  shows "\<exists>ipsi_heel contra_heel.
      sel_nearest ipsi_data t4 = Inr ipsi_heel
    \<and> sel_nearest contra_data t4 = Inr contra_heel
    \<and> nearest_sample ipsi_data t4 ipsi_heel
    \<and> nearest_sample contra_data t4 contra_heel
    \<and> calculate_step_length env t ipsi_marker contra_marker =
        Inr [(''step_length'',
              Some (calculate_distance env
                      (project_point_on_vector env ipsi_heel (normalize_vector env progression))
                      (project_point_on_vector env contra_heel (normalize_vector env progression))))]
    \<and> (euclidean env \<and> progression \<noteq> (0, 0, 0) \<longrightarrow>
        calculate_step_length env t ipsi_marker contra_marker =
          Inr [(''step_length'',
                Some (\<bar>dot (vsub contra_heel ipsi_heel) progression\<bar> / norm3 progression))])
    \<and> (euclidean env \<and> ipsi_heel = (0, 0, 0) \<and> contra_heel = (1, 0, 0)
          \<and> progression = (1, 0, 0) \<longrightarrow>
        calculate_step_length env t ipsi_marker contra_marker = Inr [(''step_length'', Some 1)])"
proof -
  from sel_nearest_returns [OF assms(3)] obtain ipsi_heel
    where ipsi: "sel_nearest ipsi_data t4 = Inr ipsi_heel" by blast
  from sel_nearest_returns [OF assms(6)] obtain contra_heel
    where contra: "sel_nearest contra_data t4 = Inr contra_heel" by blast
  have result: "calculate_step_length env t ipsi_marker contra_marker =
      Inr [(''step_length'',
            Some (calculate_distance env
                    (project_point_on_vector env ipsi_heel (normalize_vector env progression))
                    (project_point_on_vector env contra_heel (normalize_vector env progression))))]"
    using assms(1,2,5,8) ipsi contra by (simp add: calculate_step_length_def Let_def)
  show ?thesis
  proof (rule exI [of _ ipsi_heel], rule exI [of _ contra_heel], intro conjI impI)
    show "sel_nearest ipsi_data t4 = Inr ipsi_heel" by (rule ipsi)
    show "sel_nearest contra_data t4 = Inr contra_heel" by (rule contra)
    show "nearest_sample ipsi_data t4 ipsi_heel"
      by (rule sel_nearest_nearest_sample [OF assms(4) ipsi])
    show "nearest_sample contra_data t4 contra_heel"
      by (rule sel_nearest_nearest_sample [OF assms(7) contra])
    show "calculate_step_length env t ipsi_marker contra_marker =
        Inr [(''step_length'',
              Some (calculate_distance env
                      (project_point_on_vector env ipsi_heel (normalize_vector env progression))
                      (project_point_on_vector env contra_heel (normalize_vector env progression))))]"
      by (rule result)
  next
    assume "euclidean env \<and> progression \<noteq> (0, 0, 0)"
    then show "calculate_step_length env t ipsi_marker contra_marker =
        Inr [(''step_length'',
              Some (\<bar>dot (vsub contra_heel ipsi_heel) progression\<bar> / norm3 progression))]"
      using euclid_step_length [of progression ipsi_heel contra_heel]
      by (simp add: result euclidean_def)
  next
    assume "euclidean env \<and> ipsi_heel = (0, 0, 0) \<and> contra_heel = (1, 0, 0)
      \<and> progression = (1, 0, 0)"
    then show "calculate_step_length env t ipsi_marker contra_marker =
        Inr [(''step_length'', Some 1)]"
      using euclid_unit_step by (simp add: result euclidean_def)
  qed
qed

lemma synthetic_events:
  "get_event_times (events synthetic_trial) = Inr (0, 3/20, 3/5, 3/4, 6/5)"
  by (simp add: synthetic_trial_def stride_table_times)

lemma synthetic_nearest:
  "sel_nearest (zip synthetic_times [p0, p1, p2, p3, p4, p5, p6, p7, p8, p9]) (6/5) = Inr p8"
  by (simp add: sel_nearest_def synthetic_times_def)

lemma synthetic_sorted:
  "sorted (map fst (zip synthetic_times [p0, p1, p2, p3, p4, p5, p6, p7, p8, p9]))"
  by (simp add: synthetic_times_def)

theorem step_length_projection_witness:
  "calculate_step_length synthetic_env synthetic_trial ''R_META_2'' ''L_META_2'' =
     Inr [(''step_length'', Some 1)]
   \<and> sel_nearest synthetic_meta_2 (6/5) = Inr (0, 0, 0)
   \<and> sel_nearest synthetic_contra_meta_2 (6/5) = Inr (1, 0, 0)"
proof -
  have 1: "get_marker_data synthetic_env synthetic_trial ''R_META_2'' = Inr synthetic_meta_2"
    by (simp add: synthetic_env_def synthetic_markers_def)
  have 2: "synthetic_meta_2 \<noteq> []" "sorted (map fst synthetic_meta_2)"
    unfolding synthetic_meta_2_def by (simp add: synthetic_times_def, rule synthetic_sorted)
  have 3: "get_marker_data synthetic_env synthetic_trial ''L_META_2'' =
      Inr synthetic_contra_meta_2"
    by (simp add: synthetic_env_def synthetic_markers_def)
  have 4: "synthetic_contra_meta_2 \<noteq> []" "sorted (map fst synthetic_contra_meta_2)"
    unfolding synthetic_contra_meta_2_def
    by (simp add: synthetic_times_def, rule synthetic_sorted)
  have 5: "get_progression_vector synthetic_env synthetic_trial = Inr (1, 0, 0)"
    by (simp add: synthetic_env_def)
  have 6: "euclidean synthetic_env"
    by (simp add: euclidean_def synthetic_env_def)
  have i0: "sel_nearest synthetic_meta_2 (6/5) = Inr (0, 0, 0)"
    unfolding synthetic_meta_2_def by (rule synthetic_nearest)
  have c0: "sel_nearest synthetic_contra_meta_2 (6/5) = Inr (1, 0, 0)"
    unfolding synthetic_contra_meta_2_def by (rule synthetic_nearest)
  from step_length_projection [OF synthetic_events 1 2 3 4 5]
  obtain ipsi_heel contra_heel
    where i: "sel_nearest synthetic_meta_2 (6/5) = Inr ipsi_heel"
      and c: "sel_nearest synthetic_contra_meta_2 (6/5) = Inr contra_heel"
      and unit: "euclidean synthetic_env \<and> ipsi_heel = (0, 0, 0) \<and> contra_heel = (1, 0, 0)
          \<and> (1, 0, 0) = ((1, 0, 0) :: vec3) \<longrightarrow>
        calculate_step_length synthetic_env synthetic_trial ''R_META_2'' ''L_META_2'' =
          Inr [(''step_length'', Some 1)]"
    by blast
  from i i0 have "ipsi_heel = (0, 0, 0)" by simp
  moreover from c c0 have "contra_heel = (1, 0, 0)" by simp
  ultimately show ?thesis using unit 6 i0 c0 by simp
qed

subsection \<open>Minimal toe clearance\<close>


lemma length_z_values [simp]: "length (z_values d) = length d"
  by (simp add: z_values_def)











end
